theory Spec2Isabelle
  imports Complex_Main "HOL-Library.Log_Nat"
begin

section \<open>JavaScript values\<close>

text \<open>
  The Lambda runtime hands the handler an event deserialised from JSON, so an event and
  everything read out of it is a JSON value. A property that is absent reads as
  \<open>undefined\<close>, which is \<open>None\<close> here.
\<close>

type_synonym bytes = string

datatype json =
    JNull
  | JBool bool
  | JNum rat
  | JStr string
  | JArr "json list"
  | JObj "(string \<times> json) list"

type_synonym js_value = "json option"

text \<open>
  \<open>v.k\<close> for a value other than \<open>null\<close>. Only the names \<open>body\<close>, \<open>bucket\<close> and
  \<open>filepath\<close> are ever read, and no prototype of a JSON value defines one of them, so a
  value that is not an object yields \<open>undefined\<close>.
\<close>

fun get_prop :: "json \<Rightarrow> string \<Rightarrow> js_value" where
  "get_prop (JObj kvs) k = map_of kvs k"
| "get_prop v k = None"

text \<open>The truthiness that \<open>!bucket || !filepath\<close> tests.\<close>

fun truthy :: "js_value \<Rightarrow> bool" where
  "truthy None = False"
| "truthy (Some JNull) = False"
| "truthy (Some (JBool b)) = b"
| "truthy (Some (JNum x)) = (x \<noteq> 0)"
| "truthy (Some (JStr s)) = (s \<noteq> [])"
| "truthy (Some (JArr xs)) = True"
| "truthy (Some (JObj kvs)) = True"

section \<open>Numbers\<close>

text \<open>
  A JavaScript number is an IEEE 754 double. A finite double is a rational; \<open>fl\<close> rounds
  a rational to the nearest number with a significand of 53 bits, a tie going to the even
  significand, which is what every arithmetic operation does to its exact result. The
  exponent is not bounded here: the numbers computed below are quotients and products of
  pixel dimensions, far from overflow and underflow. Zero carries no sign: every divisor
  below is a dimension or a constant.
\<close>

datatype js_number = Num rat | Infinity | NegInfinity | NaN

definition round_even :: "rat \<Rightarrow> int" where
  "round_even q =
     (let n = \<lfloor>q\<rfloor>; r = q - of_int n in
      if r < 1 / 2 then n else if 1 / 2 < r then n + 1 else if even n then n else n + 1)"

text \<open>The exponent \<open>e\<close> of a number other than zero: \<open>2\<^sup>e \<le> |x| < 2\<^sup>e\<^sup>+\<^sup>1\<close>.\<close>

definition exponent_of :: "rat \<Rightarrow> int" where
  "exponent_of x =
     (let (a, b) = quotient_of \<bar>x\<bar>; d = bitlen a - bitlen b in
      if 2 powi d \<le> \<bar>x\<bar> then d else d - 1)"

definition fl :: "rat \<Rightarrow> rat" where
  "fl x =
     (if x = 0 then 0
      else let ulp = 2 powi (exponent_of x - 52) in of_int (round_even (x / ulp)) * ulp)"

fun js_mul :: "js_number \<Rightarrow> js_number \<Rightarrow> js_number" where
  "js_mul (Num x) (Num y) = Num (fl (x * y))"
| "js_mul NaN b = NaN"
| "js_mul a NaN = NaN"
| "js_mul (Num x) Infinity = (if x = 0 then NaN else if 0 < x then Infinity else NegInfinity)"
| "js_mul (Num x) NegInfinity = (if x = 0 then NaN else if 0 < x then NegInfinity else Infinity)"
| "js_mul Infinity (Num y) = (if y = 0 then NaN else if 0 < y then Infinity else NegInfinity)"
| "js_mul NegInfinity (Num y) = (if y = 0 then NaN else if 0 < y then NegInfinity else Infinity)"
| "js_mul Infinity Infinity = Infinity"
| "js_mul NegInfinity NegInfinity = Infinity"
| "js_mul Infinity NegInfinity = NegInfinity"
| "js_mul NegInfinity Infinity = NegInfinity"

fun js_div :: "js_number \<Rightarrow> js_number \<Rightarrow> js_number" where
  "js_div (Num x) (Num y) =
     (if y = 0 then (if x = 0 then NaN else if 0 < x then Infinity else NegInfinity)
      else Num (fl (x / y)))"
| "js_div NaN b = NaN"
| "js_div a NaN = NaN"
| "js_div (Num x) b = Num 0"
| "js_div Infinity (Num y) = (if 0 \<le> y then Infinity else NegInfinity)"
| "js_div NegInfinity (Num y) = (if 0 \<le> y then NegInfinity else Infinity)"
| "js_div a b = NaN"

fun js_sub :: "js_number \<Rightarrow> js_number \<Rightarrow> js_number" where
  "js_sub (Num x) (Num y) = Num (fl (x - y))"
| "js_sub NaN b = NaN"
| "js_sub a NaN = NaN"
| "js_sub Infinity Infinity = NaN"
| "js_sub NegInfinity NegInfinity = NaN"
| "js_sub Infinity b = Infinity"
| "js_sub NegInfinity b = NegInfinity"
| "js_sub a Infinity = NegInfinity"
| "js_sub a NegInfinity = Infinity"

fun js_gt :: "js_number \<Rightarrow> js_number \<Rightarrow> bool" where
  "js_gt (Num x) (Num y) = (y < x)"
| "js_gt NaN b = False"
| "js_gt a NaN = False"
| "js_gt Infinity Infinity = False"
| "js_gt Infinity b = True"
| "js_gt a NegInfinity = (a \<noteq> NegInfinity)"
| "js_gt a b = False"

fun Math_abs :: "js_number \<Rightarrow> js_number" where
  "Math_abs (Num x) = Num \<bar>x\<bar>"
| "Math_abs NaN = NaN"
| "Math_abs a = Infinity"

text \<open>\<open>Math.round\<close>: the nearest integer, a tie going up.\<close>

fun Math_round :: "js_number \<Rightarrow> js_number" where
  "Math_round (Num x) = Num (of_int \<lfloor>x + 1 / 2\<rfloor>)"
| "Math_round a = a"

text \<open>A property read from a probed stream: absent is \<open>undefined\<close>, which counts as \<open>NaN\<close>.\<close>

fun to_number :: "nat option \<Rightarrow> js_number" where
  "to_number None = NaN"
| "to_number (Some n) = Num (fl (of_nat n))"

text \<open>
  The text of a number in a template literal, for the integers below \<open>10\<^sup>2\<^sup>1\<close> and the
  three special values (the numbers rendered below are results of \<open>Math.round\<close>).
\<close>

fun show_nat :: "nat \<Rightarrow> string" where
  "show_nat n =
     (if n < 10 then [char_of (48 + n)] else show_nat (n div 10) @ [char_of (48 + n mod 10)])"

fun show_number :: "js_number \<Rightarrow> string" where
  "show_number (Num x) = (if x < 0 then ''-'' @ show_nat (nat \<lfloor>- x\<rfloor>) else show_nat (nat \<lfloor>x\<rfloor>))"
| "show_number Infinity = ''Infinity''"
| "show_number NegInfinity = ''-Infinity''"
| "show_number NaN = ''NaN''"

section \<open>Errors and promises\<close>

text \<open>
  Every value thrown in this program is an \<open>Error\<close> object: the handler's own
  \<open>new Error\<close>, the runtime's \<open>SyntaxError\<close> and \<open>TypeError\<close>, the errors of \<open>fs\<close>, and
  the errors the S3 client and ffmpeg reject with.
\<close>

datatype js_error =
    Error string  \<comment> \<open>\<open>new Error(message)\<close>\<close>
  | SyntaxError string  \<comment> \<open>\<open>JSON.parse\<close> of this text\<close>
  | TypeError string  \<comment> \<open>the expression the runtime could not evaluate\<close>
  | SystemError string string string  \<comment> \<open>code, system call, path\<close>
  | ServiceError string string  \<comment> \<open>message and stack of a collaborator's error\<close>

text \<open>What an awaited promise does: it is fulfilled, it is rejected, or it never settles.\<close>

datatype 'a completion = Fulfilled 'a | Rejected js_error | Pending

section \<open>The collaborators\<close>

record s3_object =
  content :: bytes
  content_type :: string

type_synonym s3_store = "json \<times> string \<Rightarrow> s3_object option"

text \<open>
  The \<open>Body\<close> of a GetObject response is a readable stream: it delivers bytes and then
  either ends or emits an error (the connection is lost after the response has started).
\<close>

record s3_body =
  delivered :: bytes
  read_error :: "js_error option"

text \<open>
  One ffmpeg run emits \<open>end\<close> or \<open>error\<close>; either way it may or may not have written a
  frame to the output path.
\<close>

datatype ffmpeg_result =
    FfmpegEnd "bytes option"
  | FfmpegError js_error "bytes option"

text \<open>A stream of ffprobe's metadata; an audio stream has no width and no height.\<close>

record probe_stream =
  codec_type :: string
  width :: "nat option"
  height :: "nat option"

record metadata =
  streams :: "probe_stream list"

text \<open>
  The process-wide configuration and the behaviour of everything the program calls but
  does not implement: the platform's \<open>path.basename\<close> and \<open>path.dirname\<close>, the JSON
  built-ins, the texts the runtime gives its own errors, the S3 client, the write stream,
  the refusal of the file system to unlink a path that exists, ffmpeg and ffprobe.
\<close>

record env =
  tmpDir :: string
  path_basename :: "string \<Rightarrow> string"
  path_dirname :: "string \<Rightarrow> string"
  json_parse :: "string \<Rightarrow> json option"
  json_stringify :: "json \<Rightarrow> string"
  runtime_message :: "js_error \<Rightarrow> string"
  runtime_stack :: "js_error \<Rightarrow> string"
  s3_get :: "s3_store \<Rightarrow> json \<Rightarrow> json \<Rightarrow> js_error + s3_body"
  s3_put_fault :: "s3_store \<Rightarrow> json \<Rightarrow> string \<Rightarrow> bytes \<Rightarrow> js_error option"
  write_fault :: "string \<Rightarrow> bytes \<Rightarrow> (js_error \<times> bytes option) option"
  unlink_fault :: "string \<Rightarrow> js_error option"
  ffmpeg_run :: "bytes option \<Rightarrow> string \<Rightarrow> string \<Rightarrow> ffmpeg_result"
  ffprobe_run :: "bytes option \<Rightarrow> js_error + metadata"

text \<open>\<open>error.message\<close> and \<open>error.stack\<close>.\<close>

definition err_message :: "env \<Rightarrow> js_error \<Rightarrow> string" where
  "err_message env e =
     (case e of
        Error m \<Rightarrow> m
      | ServiceError m s \<Rightarrow> m
      | _ \<Rightarrow> runtime_message env e)"

definition err_stack :: "env \<Rightarrow> js_error \<Rightarrow> string" where
  "err_stack env e =
     (case e of
        ServiceError m s \<Rightarrow> s
      | _ \<Rightarrow> runtime_stack env e)"

section \<open>The world one invocation runs in\<close>

datatype io_op =
    GetObject json json  \<comment> \<open>Bucket, Key\<close>
  | PutObject json string string string  \<comment> \<open>Bucket, Key, path of the Body, ContentType\<close>
  | CreateWriteStream string
  | CreateReadStream string
  | Screenshots string string string string string
      \<comment> \<open>input, timestamp, filename, folder, size\<close>
  | Ffprobe string
  | ExistsSync string
  | UnlinkSync string

record world =
  objects :: s3_store
  files :: "string \<Rightarrow> bytes option"
  trace :: "io_op list"

definition log_op :: "io_op \<Rightarrow> world \<Rightarrow> world" where
  "log_op x w = w\<lparr>trace := trace w @ [x]\<rparr>"

text \<open>The operations one invocation added to the trace.\<close>

definition performed :: "world \<Rightarrow> world \<Rightarrow> io_op list" where
  "performed w w' = drop (length (trace w)) (trace w')"

fun is_store_op :: "io_op \<Rightarrow> bool" where
  "is_store_op (GetObject b k) = True"
| "is_store_op (PutObject b k p t) = True"
| "is_store_op x = False"

fun is_put :: "io_op \<Rightarrow> bool" where
  "is_put (PutObject b k p t) = True"
| "is_put x = False"

fun is_decode_op :: "io_op \<Rightarrow> bool" where
  "is_decode_op (Screenshots i t f d s) = True"
| "is_decode_op (Ffprobe p) = True"
| "is_decode_op x = False"

text \<open>
  \<open>path.join(tmpDir, name)\<close>. \<open>tmpDir\<close> is \<open>/tmp\<close> or \<open>path.join(__dirname, 'tmp')\<close>, a
  normalised path with no trailing separator, so joining appends a separator and the name.
\<close>

definition path_join :: "string \<Rightarrow> string \<Rightarrow> string" where
  "path_join dir name = dir @ ''/'' @ name"

definition tmpVideoPath :: "env \<Rightarrow> string" where
  "tmpVideoPath env = path_join (tmpDir env) ''input.mp4''"

definition tmpThumbnailPath :: "env \<Rightarrow> string" where
  "tmpThumbnailPath env = path_join (tmpDir env) ''thumbnail.jpg''"

text \<open>
  \<open>fs.existsSync\<close> and \<open>fs.unlinkSync\<close>. Unlinking throws for a path that does not
  exist; for a path that exists the file system may refuse as well (a directory, a file
  that is locked or not the process's to remove), and the path is then left as it was.
\<close>

definition existsSync :: "world \<Rightarrow> string \<Rightarrow> bool \<times> world" where
  "existsSync w p = (files w p \<noteq> None, log_op (ExistsSync p) w)"

definition unlinkSync :: "env \<Rightarrow> world \<Rightarrow> string \<Rightarrow> js_error option \<times> world" where
  "unlinkSync env w p =
     (case files w p of
        None \<Rightarrow> (Some (SystemError ''ENOENT'' ''unlink'' p), log_op (UnlinkSync p) w)
      | Some b \<Rightarrow>
         (case unlink_fault env p of
            Some e \<Rightarrow> (Some e, log_op (UnlinkSync p) w)
          | None \<Rightarrow> (None, log_op (UnlinkSync p) (w\<lparr>files := (files w)(p := None)\<rparr>))))"

section \<open>The handler\<close>

text \<open>
  The calls of \<open>console.log\<close> and \<open>console.error\<close> are left out: they change nothing the
  handler computes, and \<open>JSON.stringify\<close> of a JSON value or of \<open>undefined\<close> does not
  throw.
\<close>

record response =
  statusCode :: nat
  headers :: "(string \<times> string) list"
  body :: string

text \<open>Line 105: \<open>typeof event.body === 'string' ? JSON.parse(event.body) : event.body\<close>.\<close>

definition parse_body :: "env \<Rightarrow> json \<Rightarrow> js_error + js_value" where
  "parse_body env event =
     (case event of
        JNull \<Rightarrow> Inl (TypeError ''event.body'')
      | _ \<Rightarrow>
         (case get_prop event ''body'' of
            Some (JStr s) \<Rightarrow>
              (case json_parse env s of
                 None \<Rightarrow> Inl (SyntaxError s)
               | Some v \<Rightarrow> Inr (Some v))
          | b \<Rightarrow> Inr b))"

text \<open>Lines 108 to 113: the destructuring of the body and the check of both parameters.\<close>

definition request_of :: "js_value \<Rightarrow> js_error + json \<times> json" where
  "request_of b =
     (case b of
        None \<Rightarrow> Inl (TypeError ''{ bucket, filepath } = body'')
      | Some JNull \<Rightarrow> Inl (TypeError ''{ bucket, filepath } = body'')
      | Some v \<Rightarrow>
         (case (get_prop v ''bucket'', get_prop v ''filepath'') of
            (Some bucket, Some filepath) \<Rightarrow>
              if \<not> truthy (Some bucket) \<or> \<not> truthy (Some filepath)
              then Inl (Error ''Missing required parameters: bucket and filepath'')
              else Inr (bucket, filepath)
          | _ \<Rightarrow> Inl (Error ''Missing required parameters: bucket and filepath'')))"

text \<open>Line 128: \<open>await s3Client.send(getCommand)\<close>.\<close>

definition send_get :: "env \<Rightarrow> world \<Rightarrow> json \<Rightarrow> json \<Rightarrow> (js_error + s3_body) \<times> world" where
  "send_get env w bucket key = (s3_get env (objects w) bucket key, log_op (GetObject bucket key) w)"

text \<open>
  Lines 132 to 143: the promise around \<open>response.Body.pipe(writeStream)\<close>. \<open>pipe\<close> returns
  the write stream, so both listeners are the write stream's: \<open>error\<close> rejects and
  \<open>finish\<close> resolves. \<open>pipe\<close> ends the write stream only when the body ends; when the body
  emits an error instead, the write stream is left open and neither listener ever runs.
\<close>

definition save_video :: "env \<Rightarrow> world \<Rightarrow> s3_body \<Rightarrow> unit completion \<times> world" where
  "save_video env w b =
     (let p = tmpVideoPath env; w1 = log_op (CreateWriteStream p) w in
      case write_fault env p (delivered b) of
        Some (e, left) \<Rightarrow> (Rejected e, w1\<lparr>files := (files w1)(p := left)\<rparr>)
      | None \<Rightarrow>
         (case read_error b of
            None \<Rightarrow> (Fulfilled (), w1\<lparr>files := (files w1)(p \<mapsto> delivered b)\<rparr>)
          | Some e \<Rightarrow> (Pending, w1\<lparr>files := (files w1)(p \<mapsto> delivered b)\<rparr>)))"

text \<open>
  \<open>ffmpeg(input).screenshots({timestamps, filename, folder, size})\<close> with its \<open>end\<close> and
  \<open>error\<close> listeners (lines 147 to 163, and 80 to 90 in \<open>generateThumbnail\<close>).
\<close>

definition screenshots ::
  "env \<Rightarrow> world \<Rightarrow> string \<Rightarrow> string \<Rightarrow> string \<Rightarrow> string \<Rightarrow> string \<Rightarrow> unit completion \<times> world"
where
  "screenshots env w input ts filename folder dims =
     (let out = path_join folder filename;
          w1 = log_op (Screenshots input ts filename folder dims) w;
          put_frame = (\<lambda>frame. case frame of
                          None \<Rightarrow> w1
                        | Some jpg \<Rightarrow> w1\<lparr>files := (files w1)(out \<mapsto> jpg)\<rparr>) in
      case ffmpeg_run env (files w input) ts dims of
        FfmpegEnd frame \<Rightarrow> (Fulfilled (), put_frame frame)
      | FfmpegError e frame \<Rightarrow> (Rejected e, put_frame frame))"

text \<open>
  Line 167: \<open>filepath.replace(/\.[^/.]+$/, '_thumbnail.jpg')\<close>. \<open>no_sep\<close> is \<open>[^/.]*\<close> up to
  the end of the text, \<open>ext_at\<close> is the whole pattern matched at the start of a suffix, and
  \<open>replace_ext\<close> tries the pattern at each position from the left and replaces the first
  match, which reaches to the end of the text.
\<close>

fun no_sep :: "string \<Rightarrow> bool" where
  "no_sep [] = True"
| "no_sep (c # cs) = (c \<noteq> CHR ''/'' \<and> c \<noteq> CHR ''.'' \<and> no_sep cs)"

fun ext_at :: "string \<Rightarrow> bool" where
  "ext_at [] = False"
| "ext_at (c # cs) = (c = CHR ''.'' \<and> cs \<noteq> [] \<and> no_sep cs)"

fun replace_ext :: "string \<Rightarrow> string" where
  "replace_ext [] = []"
| "replace_ext (c # cs) = (if ext_at (c # cs) then ''_thumbnail.jpg'' else c # replace_ext cs)"

text \<open>A JSON value other than a string has no \<open>replace\<close> method.\<close>

definition thumbnailKey :: "json \<Rightarrow> js_error + string" where
  "thumbnailKey filepath =
     (case filepath of
        JStr s \<Rightarrow> Inr (replace_ext s)
      | _ \<Rightarrow> Inl (TypeError ''filepath.replace''))"

text \<open>
  Lines 168 to 177: the PutObject whose body streams the thumbnail file. Reading a file
  that does not exist fails, and the upload with it.
\<close>

definition upload :: "env \<Rightarrow> world \<Rightarrow> json \<Rightarrow> string \<Rightarrow> unit completion \<times> world" where
  "upload env w bucket key =
     (let p = tmpThumbnailPath env;
          w1 = log_op (PutObject bucket key p ''image/jpeg'') (log_op (CreateReadStream p) w) in
      case files w p of
        None \<Rightarrow> (Rejected (SystemError ''ENOENT'' ''open'' p), w1)
      | Some jpg \<Rightarrow>
         (case s3_put_fault env (objects w) bucket key jpg of
            Some e \<Rightarrow> (Rejected e, w1)
          | None \<Rightarrow>
              (Fulfilled (),
               w1\<lparr>objects := (objects w1)((bucket, key) \<mapsto>
                     \<lparr>content = jpg, content_type = ''image/jpeg''\<rparr>)\<rparr>)))"

text \<open>
  Lines 182 and 183: the cleanup of the success path. An unlink that throws is thrown in
  the try block, after the upload.
\<close>

definition cleanup_success :: "env \<Rightarrow> world \<Rightarrow> js_error option \<times> world" where
  "cleanup_success env w =
     (case unlinkSync env w (tmpVideoPath env) of
        (Some e, w1) \<Rightarrow> (Some e, w1)
      | (None, w1) \<Rightarrow> unlinkSync env w1 (tmpThumbnailPath env))"

text \<open>
  Lines 203 to 211: the cleanup of the catch block, inside its own try: an unlink that
  throws ends the cleanup, and the error is logged and dropped.
\<close>

definition cleanup_catch :: "env \<Rightarrow> world \<Rightarrow> world" where
  "cleanup_catch env w =
     (let (there, w1) = existsSync w (tmpVideoPath env);
          (failed, w2) = (if there then unlinkSync env w1 (tmpVideoPath env) else (None, w1)) in
      case failed of
        Some cleanupError \<Rightarrow> w2
      | None \<Rightarrow>
         (let (there', w3) = existsSync w2 (tmpThumbnailPath env) in
          if there' then snd (unlinkSync env w3 (tmpThumbnailPath env)) else w3))"

definition success_response :: "env \<Rightarrow> string \<Rightarrow> response" where
  "success_response env key =
     \<lparr>statusCode = 200,
      headers = [(''Content-Type'', ''application/json''), (''Access-Control-Allow-Origin'', ''*'')],
      body = json_stringify env (JObj
        [(''message'', JStr ''Thumbnail generated successfully''),
         (''thumbnailPath'', JStr key)])\<rparr>"

definition error_response :: "env \<Rightarrow> js_error \<Rightarrow> response" where
  "error_response env e =
     \<lparr>statusCode = 500,
      headers = [(''Content-Type'', ''application/json''), (''Access-Control-Allow-Origin'', ''*'')],
      body = json_stringify env (JObj
        [(''message'', JStr ''Error generating thumbnail''),
         (''error'', JStr (err_message env e)),
         (''stack'', JStr (err_stack env e))])\<rparr>"

text \<open>Lines 115 to 197: the stages after validation.\<close>

definition process :: "env \<Rightarrow> world \<Rightarrow> json \<Rightarrow> json \<Rightarrow> response completion \<times> world" where
  "process env w bucket filepath =
     (case send_get env w bucket filepath of
        (Inl e, w1) \<Rightarrow> (Rejected e, w1)
      | (Inr b, w1) \<Rightarrow>
     (case save_video env w1 b of
        (Rejected e, w2) \<Rightarrow> (Rejected e, w2)
      | (Pending, w2) \<Rightarrow> (Pending, w2)
      | (Fulfilled u, w2) \<Rightarrow>
     (case screenshots env w2 (tmpVideoPath env) ''50%'' ''thumbnail.jpg'' (tmpDir env) ''360x640'' of
        (Rejected e, w3) \<Rightarrow> (Rejected e, w3)
      | (Pending, w3) \<Rightarrow> (Pending, w3)
      | (Fulfilled u, w3) \<Rightarrow>
     (case thumbnailKey filepath of
        Inl e \<Rightarrow> (Rejected e, w3)
      | Inr key \<Rightarrow>
     (case upload env w3 bucket key of
        (Rejected e, w4) \<Rightarrow> (Rejected e, w4)
      | (Pending, w4) \<Rightarrow> (Pending, w4)
      | (Fulfilled u, w4) \<Rightarrow>
     (case cleanup_success env w4 of
        (Some e, w5) \<Rightarrow> (Rejected e, w5)
      | (None, w5) \<Rightarrow> (Fulfilled (success_response env key), w5)))))))"

text \<open>Lines 103 to 197: the try block.\<close>

definition handler_try :: "env \<Rightarrow> world \<Rightarrow> json \<Rightarrow> response completion \<times> world" where
  "handler_try env w event =
     (case parse_body env event of
        Inl e \<Rightarrow> (Rejected e, w)
      | Inr b \<Rightarrow>
         (case request_of b of
            Inl e \<Rightarrow> (Rejected e, w)
          | Inr (bucket, filepath) \<Rightarrow> process env w bucket filepath))"

text \<open>
  Lines 100 to 226: the promise the async handler returns. An error thrown in the try
  block is caught; an await that never settles leaves the handler's promise pending.
\<close>

definition handler :: "env \<Rightarrow> world \<Rightarrow> json \<Rightarrow> response completion \<times> world" where
  "handler env w event =
     (case handler_try env w event of
        (Fulfilled r, w1) \<Rightarrow> (Fulfilled r, w1)
      | (Pending, w1) \<Rightarrow> (Pending, w1)
      | (Rejected e, w1) \<Rightarrow> (Fulfilled (error_response env e), cleanup_catch env w1))"

section \<open>The helpers no code calls\<close>

text \<open>
  Lines 50 to 57: \<open>getVideoDimensions\<close> resolves with \<open>metadata.streams[0]\<close>, which is
  \<open>undefined\<close> when there is no stream, and rejects with ffprobe's error.
\<close>

definition getVideoDimensions ::
  "env \<Rightarrow> world \<Rightarrow> string \<Rightarrow> probe_stream option completion \<times> world"
where
  "getVideoDimensions env w inputPath =
     (let w1 = log_op (Ffprobe inputPath) w in
      case ffprobe_run env (files w inputPath) of
        Inl err \<Rightarrow> (Rejected err, w1)
      | Inr metadata \<Rightarrow>
          (Fulfilled (case streams metadata of [] \<Rightarrow> None | s # rest \<Rightarrow> Some s), w1))"

text \<open>Lines 64 to 78: the size of the thumbnail from the size of the source.\<close>

definition thumbnail_size :: "js_number \<Rightarrow> js_number \<Rightarrow> js_number \<times> js_number" where
  "thumbnail_size originalWidth originalHeight =
     (let width = Num 360;
          height = Math_round (js_div (js_mul width (Num 16)) (Num 9));
          originalRatio = js_div originalHeight originalWidth;
          targetRatio = js_div (Num 16) (Num 9) in
      if js_gt (Math_abs (js_sub originalRatio targetRatio)) (Num (fl (1 / 10))) then
        if js_gt originalRatio targetRatio
        then (width, Math_round (js_div (js_mul width originalHeight) originalWidth))
        else (Math_round (js_div (js_mul height originalWidth) originalHeight), height)
      else (width, height))"

text \<open>Lines 60 to 91: \<open>generateThumbnail\<close>.\<close>

definition generateThumbnail ::
  "env \<Rightarrow> world \<Rightarrow> string \<Rightarrow> string \<Rightarrow> unit completion \<times> world"
where
  "generateThumbnail env w inputPath outputPath =
     (case getVideoDimensions env w inputPath of
        (Rejected e, w1) \<Rightarrow> (Rejected e, w1)
      | (Pending, w1) \<Rightarrow> (Pending, w1)
      | (Fulfilled None, w1) \<Rightarrow> (Rejected (TypeError ''{ width, height } = stream''), w1)
      | (Fulfilled (Some stream), w1) \<Rightarrow>
          (let (tw, th) = thumbnail_size (to_number (width stream)) (to_number (height stream)) in
           screenshots env w1 inputPath ''00:00:01.000''
             (path_basename env outputPath) (path_dirname env outputPath)
             (show_number tw @ ''x'' @ show_number th)))"

text \<open>
  Lines 94 to 98: \<open>streamS3ToFile\<close>. The promisified \<open>pipeline\<close> rejects when either
  stream fails, the body included.
\<close>

definition streamS3ToFile ::
  "env \<Rightarrow> world \<Rightarrow> json \<Rightarrow> json \<Rightarrow> string \<Rightarrow> unit completion \<times> world"
where
  "streamS3ToFile env w bucket key outputPath =
     (case send_get env w bucket key of
        (Inl e, w1) \<Rightarrow> (Rejected e, w1)
      | (Inr b, w1) \<Rightarrow>
         (let w2 = log_op (CreateWriteStream outputPath) w1 in
          case write_fault env outputPath (delivered b) of
            Some (e, left) \<Rightarrow> (Rejected e, w2\<lparr>files := (files w2)(outputPath := left)\<rparr>)
          | None \<Rightarrow>
             (case read_error b of
                None \<Rightarrow> (Fulfilled (), w2\<lparr>files := (files w2)(outputPath \<mapsto> delivered b)\<rparr>)
              | Some e \<Rightarrow> (Rejected e, w2\<lparr>files := (files w2)(outputPath \<mapsto> delivered b)\<rparr>))))"

section \<open>The words of the specification\<close>

text \<open>
  A field of the request, which is absent when the request itself is absent or \<open>null\<close>,
  and what it is for a field to be absent or an empty string.
\<close>

definition request_field :: "js_value \<Rightarrow> string \<Rightarrow> js_value" where
  "request_field b k = (case b of None \<Rightarrow> None | Some v \<Rightarrow> get_prop v k)"

definition absent_or_empty :: "js_value \<Rightarrow> bool" where
  "absent_or_empty x = (x = None \<or> x = Some (JStr []))"

section \<open>The local test's fixtures\<close>

text \<open>
  The repository's local test replaces the S3 client by one that reads and writes local
  files and calls the handler with a string body. The fixtures below are that setting:
  a store holding the test video, an empty staging directory, and collaborators that
  succeed.
\<close>

definition test_request :: json where
  "test_request = JObj [(''bucket'', JStr ''test-bucket''), (''filepath'', JStr ''test/test-video.mp4'')]"

definition test_body_text :: string where
  \<open>test_body_text = ''{"bucket":"test-bucket","filepath":"test/test-video.mp4"}''\<close>

definition mockEvent :: json where
  "mockEvent = JObj [(''body'', JStr test_body_text)]"

text \<open>A stand-in for \<open>JSON.stringify\<close> that keeps the fields of a flat object apart.\<close>

definition test_stringify :: "json \<Rightarrow> string" where
  "test_stringify j =
     (case j of
        JObj kvs \<Rightarrow> concat (map (\<lambda>(k, v). k @ ''='' @ (case v of JStr t \<Rightarrow> t | _ \<Rightarrow> ''?'') @ '';'') kvs)
      | _ \<Rightarrow> ''?'')"

definition test_env :: env where
  "test_env =
     \<lparr>tmpDir = ''/tmp'',
      path_basename = (\<lambda>p. rev (takeWhile (\<lambda>c. c \<noteq> CHR ''/'') (rev p))),
      path_dirname = (\<lambda>p. rev (drop 1 (dropWhile (\<lambda>c. c \<noteq> CHR ''/'') (rev p)))),
      json_parse = (\<lambda>t. if t = test_body_text then Some test_request else None),
      json_stringify = test_stringify,
      runtime_message = (\<lambda>e. ''runtime message''),
      runtime_stack = (\<lambda>e. ''runtime stack''),
      s3_get = (\<lambda>store bucket key.
         case key of
           JStr k \<Rightarrow>
             (case store (bucket, k) of
                Some obj \<Rightarrow> Inr \<lparr>delivered = content obj, read_error = None\<rparr>
              | None \<Rightarrow> Inl (ServiceError ''NoSuchKey'' ''stack''))
         | _ \<Rightarrow> Inl (ServiceError ''InvalidRequest'' ''stack'')),
      s3_put_fault = (\<lambda>store bucket key jpg. None),
      write_fault = (\<lambda>p b. None),
      unlink_fault = (\<lambda>p. None),
      ffmpeg_run = (\<lambda>input ts dims.
         case input of
           Some video \<Rightarrow> FfmpegEnd (Some ''JPEG'')
         | None \<Rightarrow> FfmpegError (ServiceError ''ffmpeg exited with code 1'' ''stack'') None),
      ffprobe_run = (\<lambda>input.
         case input of
           Some video \<Rightarrow> Inr \<lparr>streams = [\<lparr>codec_type = ''video'', width = Some 1080, height = Some 1920\<rparr>]\<rparr>
         | None \<Rightarrow> Inl (ServiceError ''ffprobe exited with code 1'' ''stack''))\<rparr>"

text \<open>The same setting, except that the connection is lost while the video downloads.\<close>

definition aborted_env :: env where
  "aborted_env =
     test_env\<lparr>s3_get := (\<lambda>store bucket key.
        Inr \<lparr>delivered = ''VID'', read_error = Some (ServiceError ''aborted'' ''stack'')\<rparr>)\<rparr>"

text \<open>
  The same setting, except that the staged video cannot be unlinked, and a staging
  directory in which both files of an earlier invocation are left.
\<close>

definition locked_env :: env where
  "locked_env =
     test_env\<lparr>unlink_fault := (\<lambda>p.
        if p = ''/tmp/input.mp4'' then Some (SystemError ''EPERM'' ''unlink'' p) else None)\<rparr>"

definition stale_world :: world where
  "stale_world =
     \<lparr>objects = Map.empty,
      files = [''/tmp/input.mp4'' \<mapsto> ''OLD VIDEO'', ''/tmp/thumbnail.jpg'' \<mapsto> ''OLD JPEG''],
      trace = []\<rparr>"

text \<open>The same setting, except that ffmpeg fails.\<close>

definition failing_env :: env where
  "failing_env =
     test_env\<lparr>ffmpeg_run := (\<lambda>input ts dims.
        FfmpegError (ServiceError ''ffmpeg exited with code 1'' ''stack'') None)\<rparr>"

text \<open>The same setting, except that the staged file holds sound only, or no stream.\<close>

definition audio_stream :: probe_stream where
  "audio_stream = \<lparr>codec_type = ''audio'', width = None, height = None\<rparr>"

definition audio_env :: env where
  "audio_env = test_env\<lparr>ffprobe_run := (\<lambda>input. Inr \<lparr>streams = [audio_stream]\<rparr>)\<rparr>"

definition empty_env :: env where
  "empty_env = test_env\<lparr>ffprobe_run := (\<lambda>input. Inr \<lparr>streams = []\<rparr>)\<rparr>"

definition staged_world :: world where
  "staged_world =
     \<lparr>objects = Map.empty, files = [''/tmp/input.mp4'' \<mapsto> ''MEDIA''], trace = []\<rparr>"

text \<open>A source key with no extension.\<close>

definition plain_event :: json where
  "plain_event =
     JObj [(''body'', JObj [(''bucket'', JStr ''test-bucket''), (''filepath'', JStr ''videos/a'')])]"

definition plain_world :: world where
  "plain_world =
     \<lparr>objects = [(JStr ''test-bucket'', ''videos/a'') \<mapsto>
                   \<lparr>content = ''VIDEO'', content_type = ''video/mp4''\<rparr>],
      files = Map.empty,
      trace = []\<rparr>"

definition test_world :: world where
  "test_world =
     \<lparr>objects = [(JStr ''test-bucket'', ''test/test-video.mp4'') \<mapsto>
                   \<lparr>content = ''VIDEO'', content_type = ''video/mp4''\<rparr>],
      files = Map.empty,
      trace = []\<rparr>"

section \<open>Properties\<close>

subsection \<open>The stages\<close>

lemma paths_distinct: "tmpVideoPath env \<noteq> tmpThumbnailPath env"
  by (simp add: tmpVideoPath_def tmpThumbnailPath_def path_join_def)

lemma thumb_is_output: "path_join (tmpDir env) ''thumbnail.jpg'' = tmpThumbnailPath env"
  by (simp add: tmpThumbnailPath_def)

lemma performed_append [simp]: "trace w' = trace w @ xs \<Longrightarrow> performed w w' = xs"
  by (simp add: performed_def)

lemmas stage_defs =
  send_get_def save_video_def screenshots_def upload_def cleanup_success_def
  cleanup_catch_def unlinkSync_def existsSync_def log_op_def

lemmas handler_defs =
  handler_def handler_try_def process_def parse_body_def request_of_def thumbnailKey_def
  tmpVideoPath_def tmpThumbnailPath_def path_join_def

lemmas test_defs =
  test_env_def test_world_def mockEvent_def test_request_def test_body_text_def
  test_stringify_def

lemma send_get_world:
  "send_get env w b k = (r, w') \<Longrightarrow>
     trace w' = trace w @ [GetObject b k] \<and> objects w' = objects w \<and> files w' = files w"
  by (auto simp: stage_defs)

lemma save_video_world:
  "save_video env w b = (r, w') \<Longrightarrow>
     trace w' = trace w @ [CreateWriteStream (tmpVideoPath env)] \<and> objects w' = objects w \<and>
     (r = Fulfilled () \<longrightarrow> files w' (tmpVideoPath env) \<noteq> None)"
  by (auto simp: stage_defs Let_def split: option.splits)

lemma screenshots_world:
  "screenshots env w i ts fn d dims = (r, w') \<Longrightarrow>
     trace w' = trace w @ [Screenshots i ts fn d dims] \<and> objects w' = objects w \<and>
     r \<noteq> Pending \<and> (\<forall>p. p \<noteq> path_join d fn \<longrightarrow> files w' p = files w p)"
  by (auto simp: stage_defs Let_def split: option.splits ffmpeg_result.splits)

lemma upload_world:
  "upload env w b k = (r, w') \<Longrightarrow>
     trace w' = trace w @
       [CreateReadStream (tmpThumbnailPath env), PutObject b k (tmpThumbnailPath env) ''image/jpeg''] \<and>
     files w' = files w \<and> r \<noteq> Pending \<and>
     (r = Fulfilled () \<longrightarrow> files w (tmpThumbnailPath env) \<noteq> None) \<and>
     (r \<noteq> Fulfilled () \<longrightarrow> objects w' = objects w)"
  by (auto simp: stage_defs Let_def split: option.splits)

text \<open>
  The cleanup of the success path, run where both staged files exist: it throws exactly
  when the file system refuses an unlink, and otherwise removes both.
\<close>

lemma cleanup_success_present:
  "files w (tmpVideoPath env) \<noteq> None \<Longrightarrow> files w (tmpThumbnailPath env) \<noteq> None \<Longrightarrow>
   cleanup_success env w =
     (case unlink_fault env (tmpVideoPath env) of
        Some e \<Rightarrow> (Some e, w\<lparr>trace := trace w @ [UnlinkSync (tmpVideoPath env)]\<rparr>)
      | None \<Rightarrow>
         (case unlink_fault env (tmpThumbnailPath env) of
            Some e \<Rightarrow>
              (Some e, w\<lparr>files := (files w)(tmpVideoPath env := None),
                         trace := trace w @ [UnlinkSync (tmpVideoPath env), UnlinkSync (tmpThumbnailPath env)]\<rparr>)
          | None \<Rightarrow>
              (None, w\<lparr>files := (files w)(tmpVideoPath env := None, tmpThumbnailPath env := None),
                       trace := trace w @ [UnlinkSync (tmpVideoPath env), UnlinkSync (tmpThumbnailPath env)]\<rparr>)))"
  using paths_distinct[of env]
  by (auto simp: stage_defs Let_def split: option.splits)

lemma cleanup_catch_trace:
  "trace (cleanup_catch env w) = trace w @
     [ExistsSync (tmpVideoPath env)] @
     (if files w (tmpVideoPath env) = None then [] else [UnlinkSync (tmpVideoPath env)]) @
     (if files w (tmpVideoPath env) \<noteq> None \<and> unlink_fault env (tmpVideoPath env) \<noteq> None then []
      else [ExistsSync (tmpThumbnailPath env)] @
        (if files w (tmpThumbnailPath env) = None then [] else [UnlinkSync (tmpThumbnailPath env)]))"
  using paths_distinct[of env]
  by (auto simp: stage_defs Let_def split: option.splits)

lemma cleanup_catch_performed:
  "performed w (cleanup_catch env w) =
     [ExistsSync (tmpVideoPath env)] @
     (if files w (tmpVideoPath env) = None then [] else [UnlinkSync (tmpVideoPath env)]) @
     (if files w (tmpVideoPath env) \<noteq> None \<and> unlink_fault env (tmpVideoPath env) \<noteq> None then []
      else [ExistsSync (tmpThumbnailPath env)] @
        (if files w (tmpThumbnailPath env) = None then [] else [UnlinkSync (tmpThumbnailPath env)]))"
  by (rule performed_append) (simp add: cleanup_catch_trace)

lemma cleanup_catch_extends:
  "trace (cleanup_catch env w) = trace w @ performed w (cleanup_catch env w)"
  unfolding cleanup_catch_performed by (simp add: cleanup_catch_trace)

lemma cleanup_catch_after:
  assumes "trace w1 = trace w @ ops"
  shows "performed w (cleanup_catch env w1) = ops @ performed w1 (cleanup_catch env w1)"
proof -
  have "trace (cleanup_catch env w1) = trace w @ (ops @ performed w1 (cleanup_catch env w1))"
    by (subst cleanup_catch_extends) (simp add: assms)
  then show ?thesis by (rule performed_append)
qed

lemma cleanup_catch_ops:
  "x \<in> set (performed w (cleanup_catch env w)) \<Longrightarrow>
   x \<in> {ExistsSync (tmpVideoPath env), UnlinkSync (tmpVideoPath env),
         ExistsSync (tmpThumbnailPath env), UnlinkSync (tmpThumbnailPath env)}"
  unfolding cleanup_catch_performed by (auto split: if_splits)

lemma cleanup_catch_files:
  "unlink_fault env (tmpVideoPath env) = None \<Longrightarrow> unlink_fault env (tmpThumbnailPath env) = None \<Longrightarrow>
   files (cleanup_catch env w) = (files w)(tmpVideoPath env := None, tmpThumbnailPath env := None)"
  using paths_distinct[of env]
  by (auto simp: stage_defs Let_def fun_eq_iff split: option.splits)

lemma cleanup_catch_absent:
  "files w (tmpVideoPath env) = None \<Longrightarrow> files w (tmpThumbnailPath env) = None \<Longrightarrow>
   files (cleanup_catch env w) = files w"
  by (auto simp: stage_defs Let_def split: option.splits)

lemma cleanup_catch_objects: "objects (cleanup_catch env w) = objects w"
  by (auto simp: stage_defs Let_def split: option.splits)

subsection \<open>The try block\<close>

text \<open>
  Whatever the stages do: the trace only grows; a fulfilled run has unlinked both staged
  files, which are gone, and answers 200; a run that throws after an unlink throws what the
  file system answered to the unlink of a staged file that exists, so that the unlinks of
  the success path never meet a missing file; a run that never settles has not come to an
  unlink; and a run that is not fulfilled, where the file system refuses no unlink of a
  staged file, has left the store as it was.
\<close>

lemma process_world:
  assumes "process env w b f = (r, w')"
  shows "(\<exists>ops. trace w' = trace w @ ops \<and>
            (\<forall>x. r = Fulfilled x \<longrightarrow>
               UnlinkSync (tmpVideoPath env) \<in> set ops \<and> UnlinkSync (tmpThumbnailPath env) \<in> set ops) \<and>
            (\<forall>e. r = Rejected e \<and> (\<exists>p. UnlinkSync p \<in> set ops) \<longrightarrow>
               unlink_fault env (tmpVideoPath env) = Some e \<or>
               unlink_fault env (tmpThumbnailPath env) = Some e) \<and>
            (r = Pending \<longrightarrow> (\<forall>p. UnlinkSync p \<notin> set ops))) \<and>
         (\<forall>x. r = Fulfilled x \<longrightarrow> statusCode x = 200 \<and>
            files w' (tmpVideoPath env) = None \<and> files w' (tmpThumbnailPath env) = None) \<and>
         ((\<forall>x. r \<noteq> Fulfilled x) \<and> unlink_fault env (tmpVideoPath env) = None \<and>
            unlink_fault env (tmpThumbnailPath env) = None \<longrightarrow> objects w' = objects w)"
proof (cases "send_get env w b f")
  case (Pair g w1)
  note g = send_get_world[OF Pair]
  show ?thesis
  proof (cases g)
    case (Inl e)
    with Pair assms g show ?thesis by (auto simp: process_def)
  next
    case (Inr sb)
    show ?thesis
    proof (cases "save_video env w1 sb")
      case s: (Pair sr w2)
      note sv = save_video_world[OF s]
      show ?thesis
      proof (cases sr)
        case (Rejected e)
        with Pair Inr s assms g sv show ?thesis by (auto simp: process_def)
      next
        case Pending
        with Pair Inr s assms g sv show ?thesis by (auto simp: process_def)
      next
        case (Fulfilled u)
        show ?thesis
        proof (cases "screenshots env w2 (tmpVideoPath env) ''50%'' ''thumbnail.jpg'' (tmpDir env) ''360x640''")
          case c: (Pair cr w3)
          note sc = screenshots_world[OF c, unfolded thumb_is_output]
          have video3: "files w3 (tmpVideoPath env) \<noteq> None"
            using sc sv Fulfilled paths_distinct[of env] by auto
          show ?thesis
          proof (cases cr)
            case (Rejected e)
            with Pair Inr s Fulfilled c assms g sv sc show ?thesis by (auto simp: process_def)
          next
            case Pending
            with sc show ?thesis by simp
          next
            case cf: (Fulfilled u')
            show ?thesis
            proof (cases "thumbnailKey f")
              case (Inl e)
              with Pair Inr s Fulfilled c cf assms g sv sc show ?thesis by (auto simp: process_def)
            next
              case k: (Inr key)
              show ?thesis
              proof (cases "upload env w3 b key")
                case up: (Pair ur w4)
                note u = upload_world[OF up]
                show ?thesis
                proof (cases ur)
                  case (Rejected e)
                  with Pair Inr s Fulfilled c cf k up assms g sv sc u show ?thesis
                    by (auto simp: process_def)
                next
                  case Pending
                  with u show ?thesis by simp
                next
                  case uf: (Fulfilled u'')
                  have "files w4 (tmpVideoPath env) \<noteq> None" "files w4 (tmpThumbnailPath env) \<noteq> None"
                    using u uf video3 by auto
                  note cl = cleanup_success_present[OF this]
                  with Pair Inr s Fulfilled c cf k up uf assms g sv sc u show ?thesis
                    using paths_distinct[of env]
                    by (auto simp: process_def success_response_def split: option.splits)
                qed
              qed
            qed
          qed
        qed
      qed
    qed
  qed
qed

lemma handler_try_world:
  assumes "handler_try env w event = (r, w')"
  shows "(\<exists>ops. trace w' = trace w @ ops \<and>
            (\<forall>x. r = Fulfilled x \<longrightarrow>
               UnlinkSync (tmpVideoPath env) \<in> set ops \<and> UnlinkSync (tmpThumbnailPath env) \<in> set ops) \<and>
            (\<forall>e. r = Rejected e \<and> (\<exists>p. UnlinkSync p \<in> set ops) \<longrightarrow>
               unlink_fault env (tmpVideoPath env) = Some e \<or>
               unlink_fault env (tmpThumbnailPath env) = Some e) \<and>
            (r = Pending \<longrightarrow> (\<forall>p. UnlinkSync p \<notin> set ops))) \<and>
         (\<forall>x. r = Fulfilled x \<longrightarrow> statusCode x = 200 \<and>
            files w' (tmpVideoPath env) = None \<and> files w' (tmpThumbnailPath env) = None) \<and>
         ((\<forall>x. r \<noteq> Fulfilled x) \<and> unlink_fault env (tmpVideoPath env) = None \<and>
            unlink_fault env (tmpThumbnailPath env) = None \<longrightarrow> objects w' = objects w)"
proof (cases "parse_body env event")
  case (Inl e)
  with assms show ?thesis by (auto simp: handler_try_def)
next
  case (Inr b0)
  show ?thesis
  proof (cases "request_of b0")
    case (Inl e)
    with Inr assms show ?thesis by (auto simp: handler_try_def)
  next
    case req: (Inr bf)
    obtain b f where "bf = (b, f)" by (cases bf)
    with Inr req assms have "process env w b f = (r, w')" by (simp add: handler_try_def)
    then show ?thesis by (rule process_world)
  qed
qed

text \<open>The run in which every stage succeeds.\<close>

lemma process_success:
  assumes "s3_get env (objects w) bucket (JStr f) = Inr sb" and "read_error sb = None"
    and "write_fault env (tmpVideoPath env) (delivered sb) = None"
    and "ffmpeg_run env (Some (delivered sb)) ''50%'' ''360x640'' = FfmpegEnd (Some jpg)"
    and "s3_put_fault env (objects w) bucket (replace_ext f) jpg = None"
    and "unlink_fault env (tmpVideoPath env) = None"
    and "unlink_fault env (tmpThumbnailPath env) = None"
  shows "fst (process env w bucket (JStr f)) = Fulfilled (success_response env (replace_ext f))"
    and "trace (snd (process env w bucket (JStr f))) = trace w @
          [GetObject bucket (JStr f), CreateWriteStream (tmpVideoPath env),
           Screenshots (tmpVideoPath env) ''50%'' ''thumbnail.jpg'' (tmpDir env) ''360x640'',
           CreateReadStream (tmpThumbnailPath env),
           PutObject bucket (replace_ext f) (tmpThumbnailPath env) ''image/jpeg'',
           UnlinkSync (tmpVideoPath env), UnlinkSync (tmpThumbnailPath env)]"
    and "objects (snd (process env w bucket (JStr f))) =
          (objects w)((bucket, replace_ext f) \<mapsto> \<lparr>content = jpg, content_type = ''image/jpeg''\<rparr>)"
  using assms paths_distinct[of env]
  by (simp_all add: process_def stage_defs thumbnailKey_def Let_def
      tmpVideoPath_def tmpThumbnailPath_def)

text \<open>The run in which the download succeeds and ffmpeg emits an error.\<close>

lemma process_extraction_error:
  assumes "s3_get env (objects w) bucket filepath = Inr sb" and "read_error sb = None"
    and "write_fault env (tmpVideoPath env) (delivered sb) = None"
    and "ffmpeg_run env (Some (delivered sb)) ''50%'' ''360x640'' = FfmpegError e frame"
  shows "fst (process env w bucket filepath) = Rejected e"
    and "trace (snd (process env w bucket filepath)) = trace w @
          [GetObject bucket filepath, CreateWriteStream (tmpVideoPath env),
           Screenshots (tmpVideoPath env) ''50%'' ''thumbnail.jpg'' (tmpDir env) ''360x640'']"
    and "objects (snd (process env w bucket filepath)) = objects w"
  using assms
  by (auto simp: process_def stage_defs Let_def split: option.splits)

subsection \<open>The catch block\<close>

lemma response_status [simp]:
  "statusCode (success_response env key) = 200"
  "statusCode (error_response env e) = 500"
  by (simp_all add: success_response_def error_response_def)

lemma handler_caught:
  "handler_try env w event = (Rejected e, w1) \<Longrightarrow>
   handler env w event = (Fulfilled (error_response env e), cleanup_catch env w1)"
  by (simp add: handler_def)

lemma handler_never_rejects: "fst (handler env w event) \<noteq> Rejected e"
  by (auto simp: handler_def split: prod.splits completion.splits)

text \<open>
  The handler's promise stays pending only when the try block's does, and that happens
  only while the video is being saved.
\<close>

lemma handler_pending_iff:
  "fst (handler env w event) = Pending \<longleftrightarrow> fst (handler_try env w event) = Pending"
  by (auto simp: handler_def split: prod.splits completion.splits)

text \<open>The unused helper settles where the handler's own download does not.\<close>

lemma streamS3ToFile_settles: "fst (streamS3ToFile env w bucket key outputPath) \<noteq> Pending"
  by (auto simp: streamS3ToFile_def Let_def split: sum.splits prod.splits option.splits)

subsection \<open>The thumbnail key\<close>

lemma no_sep_append [simp]: "no_sep (xs @ ys) = (no_sep xs \<and> no_sep ys)"
  by (induction xs) auto

lemma replace_ext_extension:
  "ext \<noteq> [] \<Longrightarrow> no_sep ext \<Longrightarrow> replace_ext (stem @ CHR ''.'' # ext) = stem @ ''_thumbnail.jpg''"
  by (induction stem) auto

lemma replace_ext_no_dot: "no_sep s \<Longrightarrow> replace_ext s = s"
  by (induction s) auto

subsection \<open>The local test\<close>

lemma test_run:
  "fst (handler test_env test_world mockEvent) =
     Fulfilled (success_response test_env ''test/test-video_thumbnail.jpg'')"
  "trace (snd (handler test_env test_world mockEvent)) =
     [GetObject (JStr ''test-bucket'') (JStr ''test/test-video.mp4''),
      CreateWriteStream ''/tmp/input.mp4'',
      Screenshots ''/tmp/input.mp4'' ''50%'' ''thumbnail.jpg'' ''/tmp'' ''360x640'',
      CreateReadStream ''/tmp/thumbnail.jpg'',
      PutObject (JStr ''test-bucket'') ''test/test-video_thumbnail.jpg'' ''/tmp/thumbnail.jpg'' ''image/jpeg'',
      UnlinkSync ''/tmp/input.mp4'', UnlinkSync ''/tmp/thumbnail.jpg'']"
  by (simp_all add: handler_defs stage_defs test_defs Let_def)

lemma handler_runs_process:
  assumes "parse_body env event = Inr b0" and "request_of b0 = Inr (bucket, filepath)"
  shows "handler_try env w event = process env w bucket filepath"
  using assms by (simp add: handler_try_def)

lemma handler_fulfilled:
  "fst (handler_try env w event) = Fulfilled r \<Longrightarrow>
     handler env w event = (Fulfilled r, snd (handler_try env w event))"
  by (cases "handler_try env w event") (simp add: handler_def)

lemma handler_rejected:
  "fst (handler_try env w event) = Rejected e \<Longrightarrow>
     handler env w event =
       (Fulfilled (error_response env e), cleanup_catch env (snd (handler_try env w event)))"
  by (cases "handler_try env w event") (simp add: handler_def)

lemma handler_before_process:
  assumes "parse_body env event = Inl e \<or> (\<exists>b. parse_body env event = Inr b \<and> request_of b = Inl e)"
  shows "handler env w event = (Fulfilled (error_response env e), cleanup_catch env w)"
  using assms by (auto simp: handler_def handler_try_def)

lemma cleanup_only:
  "filter (\<lambda>x. is_store_op x \<or> is_decode_op x) (performed w (cleanup_catch env w)) = []"
  by (auto simp: filter_empty_conv dest!: cleanup_catch_ops)

lemma cleanup_no_put: "filter is_put (performed w (cleanup_catch env w)) = []"
  by (auto simp: filter_empty_conv dest!: cleanup_catch_ops)

subsection \<open>The claims\<close>

text \<open>
  Claim C1, amended. A request whose bucket is a non-empty string and whose filepath is
  a string that ends in an extension (a dot followed by one or more characters other than
  a dot and a slash), on which the download, the extraction and the upload succeed and the
  file system refuses neither unlink of lines 182 and 183, is answered with status 200 and
  a body whose \<open>thumbnailPath\<close> is the filepath with the extension replaced by
  \<open>_thumbnail.jpg\<close>. The invocation issues exactly one PutObject, for that key and with
  content type \<open>image/jpeg\<close>, and the store holds the extracted frame under it.
\<close>

theorem handler_success:
  assumes "parse_body env event = Inr (Some v)"
    and "get_prop v ''bucket'' = Some (JStr b)" and "b \<noteq> []"
    and "get_prop v ''filepath'' = Some (JStr f)"
    and "f = stem @ ''.'' @ ext" and "ext \<noteq> []" and "no_sep ext"
    and "s3_get env (objects w) (JStr b) (JStr f) = Inr sb" and "read_error sb = None"
    and "write_fault env (tmpVideoPath env) (delivered sb) = None"
    and "ffmpeg_run env (Some (delivered sb)) ''50%'' ''360x640'' = FfmpegEnd (Some jpg)"
    and "s3_put_fault env (objects w) (JStr b) (stem @ ''_thumbnail.jpg'') jpg = None"
    and "unlink_fault env (tmpVideoPath env) = None"
    and "unlink_fault env (tmpThumbnailPath env) = None"
  shows "fst (handler env w event) = Fulfilled (success_response env (stem @ ''_thumbnail.jpg'')) \<and>
         statusCode (success_response env (stem @ ''_thumbnail.jpg'')) = 200 \<and>
         body (success_response env (stem @ ''_thumbnail.jpg'')) = json_stringify env (JObj
           [(''message'', JStr ''Thumbnail generated successfully''),
            (''thumbnailPath'', JStr (stem @ ''_thumbnail.jpg''))]) \<and>
         filter is_put (performed w (snd (handler env w event))) =
           [PutObject (JStr b) (stem @ ''_thumbnail.jpg'') (tmpThumbnailPath env) ''image/jpeg''] \<and>
         objects (snd (handler env w event)) =
           (objects w)((JStr b, stem @ ''_thumbnail.jpg'') \<mapsto>
              \<lparr>content = jpg, content_type = ''image/jpeg''\<rparr>)"
proof -
  have key: "replace_ext f = stem @ ''_thumbnail.jpg''"
    using assms(5-7) by (simp add: replace_ext_extension)
  have "f \<noteq> []"
    using assms(5) by simp
  then have req: "request_of (Some v) = Inr (JStr b, JStr f)"
    using assms(2-4) by (cases v) (simp_all add: request_of_def)
  have tb: "handler_try env w event = process env w (JStr b) (JStr f)"
    using assms(1) req by (rule handler_runs_process)
  have put: "s3_put_fault env (objects w) (JStr b) (replace_ext f) jpg = None"
    using assms(12) by (simp add: key)
  note ps = process_success[OF assms(8-11) put assms(13,14)]
  have run: "handler env w event =
      (Fulfilled (success_response env (replace_ext f)), snd (process env w (JStr b) (JStr f)))"
    using handler_fulfilled[of env w event] ps(1) by (simp add: tb)
  have "performed w (snd (handler env w event)) =
          [GetObject (JStr b) (JStr f), CreateWriteStream (tmpVideoPath env),
           Screenshots (tmpVideoPath env) ''50%'' ''thumbnail.jpg'' (tmpDir env) ''360x640'',
           CreateReadStream (tmpThumbnailPath env),
           PutObject (JStr b) (replace_ext f) (tmpThumbnailPath env) ''image/jpeg'',
           UnlinkSync (tmpVideoPath env), UnlinkSync (tmpThumbnailPath env)]"
    by (rule performed_append) (simp add: run ps(2))
  then show ?thesis
    using ps(3) by (simp add: run key success_response_def)
qed

theorem handler_success_witness:
  "fst (handler test_env test_world mockEvent) =
     Fulfilled (success_response test_env ''test/test-video_thumbnail.jpg'') \<and>
   filter is_put (performed test_world (snd (handler test_env test_world mockEvent))) =
     [PutObject (JStr ''test-bucket'') ''test/test-video_thumbnail.jpg'' ''/tmp/thumbnail.jpg''
        ''image/jpeg''] \<and>
   objects (snd (handler test_env test_world mockEvent))
     (JStr ''test-bucket'', ''test/test-video_thumbnail.jpg'') =
     Some \<lparr>content = ''JPEG'', content_type = ''image/jpeg''\<rparr>"
proof -
  have parsed: "parse_body test_env mockEvent = Inr (Some test_request)"
    by (simp add: test_defs parse_body_def)
  have bucket: "get_prop test_request ''bucket'' = Some (JStr ''test-bucket'')" "''test-bucket'' \<noteq> []"
    and filepath: "get_prop test_request ''filepath'' = Some (JStr ''test/test-video.mp4'')"
      "''test/test-video.mp4'' = ''test/test-video'' @ ''.'' @ ''mp4''" "''mp4'' \<noteq> []" "no_sep ''mp4''"
    by (simp_all add: test_request_def)
  have download: "s3_get test_env (objects test_world) (JStr ''test-bucket'') (JStr ''test/test-video.mp4'') =
      Inr \<lparr>delivered = ''VIDEO'', read_error = None\<rparr>"
      "read_error \<lparr>delivered = ''VIDEO'', read_error = None\<rparr> = None"
    by (simp_all add: test_defs)
  have extraction: "ffmpeg_run test_env (Some (delivered \<lparr>delivered = ''VIDEO'', read_error = None\<rparr>))
        ''50%'' ''360x640'' = FfmpegEnd (Some ''JPEG'')"
    and no_fault: "write_fault test_env p c = None" "s3_put_fault test_env s (JStr ''test-bucket'') k j = None"
      "unlink_fault test_env p = None"
    and thumb: "tmpThumbnailPath test_env = ''/tmp/thumbnail.jpg''"
    for p c s k j
    by (simp_all add: test_env_def tmpThumbnailPath_def path_join_def)
  from handler_success[of test_env mockEvent test_request "''test-bucket''" "''test/test-video.mp4''"
      "''test/test-video''" "''mp4''" test_world "\<lparr>delivered = ''VIDEO'', read_error = None\<rparr>" "''JPEG''",
      OF parsed bucket filepath download no_fault(1) extraction no_fault(2) no_fault(3) no_fault(3)]
  show ?thesis by (simp add: thumb)
qed

text \<open>
  Claim C1, as stated, fails. The request of the local test is valid, and its
  download, extraction and upload succeed; when the file system then refuses to unlink the
  staged video (line 182), the error is thrown inside the try block and the handler
  answers with status 500, although the thumbnail is stored. And for a filepath that has
  no extension the \<open>thumbnailPath\<close> of the response with status 200 is the filepath
  itself, without the suffix.
\<close>

theorem handler_success_needs_cleanup:
  "fst (handler locked_env test_world mockEvent) =
     Fulfilled (error_response locked_env (SystemError ''EPERM'' ''unlink'' ''/tmp/input.mp4'')) \<and>
   statusCode (error_response locked_env (SystemError ''EPERM'' ''unlink'' ''/tmp/input.mp4'')) = 500 \<and>
   filter is_put (performed test_world (snd (handler locked_env test_world mockEvent))) =
     [PutObject (JStr ''test-bucket'') ''test/test-video_thumbnail.jpg'' ''/tmp/thumbnail.jpg''
        ''image/jpeg''] \<and>
   objects (snd (handler locked_env test_world mockEvent))
     (JStr ''test-bucket'', ''test/test-video_thumbnail.jpg'') =
     Some \<lparr>content = ''JPEG'', content_type = ''image/jpeg''\<rparr> \<and>
   fst (handler test_env plain_world plain_event) =
     Fulfilled (success_response test_env ''videos/a'') \<and>
   statusCode (success_response test_env ''videos/a'') = 200"
  by (simp add: handler_defs stage_defs test_defs locked_env_def plain_world_def plain_event_def
      performed_def Let_def)

text \<open>
  Claim C3. When the request's bucket or filepath is absent or an empty string, the
  handler answers with status 500 (for a request that is an object or any other value
  than \<open>null\<close>, with the error of line 112), and the invocation performs no operation on
  the store (no GetObject, no PutObject) and none of the decoding tool (no probe, no
  screenshot); the store is left as it was.
\<close>

theorem handler_missing_parameters:
  assumes "parse_body env event = Inr b"
    and "absent_or_empty (request_field b ''bucket'') \<or> absent_or_empty (request_field b ''filepath'')"
  shows "(\<exists>e. fst (handler env w event) = Fulfilled (error_response env e)) \<and>
         (\<forall>v. b = Some v \<and> v \<noteq> JNull \<longrightarrow> fst (handler env w event) =
            Fulfilled (error_response env (Error ''Missing required parameters: bucket and filepath''))) \<and>
         (\<forall>e. statusCode (error_response env e) = 500) \<and>
         filter (\<lambda>x. is_store_op x \<or> is_decode_op x) (performed w (snd (handler env w event))) = [] \<and>
         objects (snd (handler env w event)) = objects w"
proof -
  define e where "e = (if b = None \<or> b = Some JNull then TypeError ''{ bucket, filepath } = body''
      else Error ''Missing required parameters: bucket and filepath'')"
  have "request_of b = Inl e"
  proof (cases b)
    case None
    then show ?thesis by (simp add: request_of_def e_def)
  next
    case (Some v)
    with assms(2) show ?thesis
      by (cases v)
        (auto simp: request_of_def e_def request_field_def absent_or_empty_def split: option.splits)
  qed
  with assms(1) have "handler env w event = (Fulfilled (error_response env e), cleanup_catch env w)"
    by (intro handler_before_process) simp
  then show ?thesis
    by (auto simp: cleanup_only cleanup_catch_objects e_def)
qed

theorem handler_missing_parameters_witness:
  "fst (handler test_env test_world
      (JObj [(''body'', JObj [(''bucket'', JStr []), (''filepath'', JStr ''test/test-video.mp4'')])])) =
     Fulfilled (error_response test_env (Error ''Missing required parameters: bucket and filepath'')) \<and>
   filter (\<lambda>x. is_store_op x \<or> is_decode_op x)
     (performed test_world (snd (handler test_env test_world
        (JObj [(''body'', JObj [(''bucket'', JStr []), (''filepath'', JStr ''test/test-video.mp4'')])])))) = [] \<and>
   fst (handler test_env test_world (JObj [(''body'', JObj [(''bucket'', JStr ''test-bucket'')])])) =
     Fulfilled (error_response test_env (Error ''Missing required parameters: bucket and filepath''))"
  using handler_missing_parameters[of test_env
      "JObj [(''body'', JObj [(''bucket'', JStr []), (''filepath'', JStr ''test/test-video.mp4'')])]"
      "Some (JObj [(''bucket'', JStr []), (''filepath'', JStr ''test/test-video.mp4'')])" test_world]
    handler_missing_parameters[of test_env
      "JObj [(''body'', JObj [(''bucket'', JStr ''test-bucket'')])]"
      "Some (JObj [(''bucket'', JStr ''test-bucket'')])" test_world]
  by (simp add: parse_body_def absent_or_empty_def request_field_def)

text \<open>
  Claim C6. When the download has succeeded and ffmpeg emits an error during the
  extraction, the handler answers with status 500 and that error; the invocation issues no
  PutObject, and the store is left as it was.
\<close>

theorem extraction_error:
  assumes "parse_body env event = Inr b0" and "request_of b0 = Inr (bucket, filepath)"
    and "s3_get env (objects w) bucket filepath = Inr sb" and "read_error sb = None"
    and "write_fault env (tmpVideoPath env) (delivered sb) = None"
    and "ffmpeg_run env (Some (delivered sb)) ''50%'' ''360x640'' = FfmpegError e frame"
  shows "fst (handler env w event) = Fulfilled (error_response env e) \<and>
         statusCode (error_response env e) = 500 \<and>
         filter is_put (performed w (snd (handler env w event))) = [] \<and>
         objects (snd (handler env w event)) = objects w"
proof -
  have tb: "handler_try env w event = process env w bucket filepath"
    using assms(1,2) by (rule handler_runs_process)
  note pe = process_extraction_error[OF assms(3-6)]
  have run: "handler env w event =
      (Fulfilled (error_response env e), cleanup_catch env (snd (process env w bucket filepath)))"
    using handler_rejected[of env w event e] pe(1) by (simp add: tb)
  have "performed w (snd (handler env w event)) =
          [GetObject bucket filepath, CreateWriteStream (tmpVideoPath env),
           Screenshots (tmpVideoPath env) ''50%'' ''thumbnail.jpg'' (tmpDir env) ''360x640''] @
          performed (snd (process env w bucket filepath))
            (cleanup_catch env (snd (process env w bucket filepath)))"
    unfolding run snd_conv by (rule cleanup_catch_after) (rule pe(2))
  then show ?thesis
    using pe(3) by (simp add: run cleanup_catch_objects cleanup_no_put)
qed

theorem extraction_error_witness:
  "fst (handler failing_env test_world mockEvent) =
     Fulfilled (error_response failing_env (ServiceError ''ffmpeg exited with code 1'' ''stack'')) \<and>
   filter is_put (performed test_world (snd (handler failing_env test_world mockEvent))) = [] \<and>
   objects (snd (handler failing_env test_world mockEvent)) = objects test_world"
  using extraction_error[of failing_env mockEvent "Some test_request" "JStr ''test-bucket''"
      "JStr ''test/test-video.mp4''" test_world "\<lparr>delivered = ''VIDEO'', read_error = None\<rparr>"
      "ServiceError ''ffmpeg exited with code 1'' ''stack''" None]
  by (simp add: failing_env_def test_defs parse_body_def request_of_def)

text \<open>
  Claim C9. When the string \<open>s\<close> is a JSON encoding of the request structure \<open>p\<close>, that
  is \<open>JSON.parse\<close> maps \<open>s\<close> to \<open>p\<close>, the handler does the same with the body \<open>s\<close> as
  with the body \<open>p\<close>: the same response and the same effects. (A structure is not itself
  a string; a body that is a string is always parsed.)
\<close>

theorem handler_string_body:
  assumes "json_parse env s = Some p" and "\<And>t. p \<noteq> JStr t"
  shows "handler env w (JObj ((''body'', JStr s) # rest)) = handler env w (JObj ((''body'', p) # rest))"
proof -
  have "parse_body env (JObj ((''body'', JStr s) # rest)) = Inr (Some p)"
    using assms(1) by (simp add: parse_body_def)
  moreover have "parse_body env (JObj ((''body'', p) # rest)) = Inr (Some p)"
    using assms(2) by (cases p) (auto simp: parse_body_def)
  ultimately show ?thesis by (simp add: handler_def handler_try_def)
qed

theorem handler_string_body_witness:
  "handler test_env test_world mockEvent = handler test_env test_world (JObj [(''body'', test_request)]) \<and>
   fst (handler test_env test_world (JObj [(''body'', test_request)])) =
     Fulfilled (success_response test_env ''test/test-video_thumbnail.jpg'')"
  using handler_string_body[of test_env test_body_text test_request test_world "[]"] test_run(1)
  by (simp add: mockEvent_def test_env_def test_request_def)

text \<open>
  Claim C10. Every response the handler returns carries the headers
  \<open>Content-Type: application/json\<close> and \<open>Access-Control-Allow-Origin: *\<close>; the response with
  status 500 carries them as the response with status 200 does.
\<close>

theorem response_headers:
  "(fst (handler env w event) = Fulfilled r \<longrightarrow>
      headers r = [(''Content-Type'', ''application/json''), (''Access-Control-Allow-Origin'', ''*'')]) \<and>
   headers (error_response env e) =
      [(''Content-Type'', ''application/json''), (''Access-Control-Allow-Origin'', ''*'')] \<and>
   headers (success_response env key) =
      [(''Content-Type'', ''application/json''), (''Access-Control-Allow-Origin'', ''*'')]"
proof -
  have "headers r = [(''Content-Type'', ''application/json''), (''Access-Control-Allow-Origin'', ''*'')]"
    if "fst (handler env w event) = Fulfilled r"
  proof (cases "handler_try env w event")
    case (Pair t w1)
    show ?thesis
    proof (cases t)
      case (Fulfilled x)
      with Pair that have "r = x" by (simp add: handler_def)
      moreover from Pair Fulfilled have "\<exists>k. x = success_response env k"
        by (auto simp: handler_try_def process_def
            split: sum.splits prod.splits completion.splits option.splits)
      ultimately show ?thesis by (auto simp: success_response_def)
    next
      case (Rejected e')
      with Pair that show ?thesis by (auto simp: handler_def error_response_def)
    next
      case Pending
      with Pair that show ?thesis by (simp add: handler_def)
    qed
  qed
  then show ?thesis by (simp add: success_response_def error_response_def)
qed

theorem response_headers_witness:
  "headers (error_response test_env (Error ''Missing required parameters: bucket and filepath'')) =
     [(''Content-Type'', ''application/json''), (''Access-Control-Allow-Origin'', ''*'')] \<and>
   fst (handler test_env test_world (JObj [])) =
     Fulfilled (error_response test_env (TypeError ''{ bucket, filepath } = body'')) \<and>
   fst (handler test_env test_world mockEvent) =
     Fulfilled (success_response test_env ''test/test-video_thumbnail.jpg'') \<and>
   headers (success_response test_env ''test/test-video_thumbnail.jpg'') =
     [(''Content-Type'', ''application/json''), (''Access-Control-Allow-Origin'', ''*'')]"
  using response_headers[of test_env test_world "JObj []"
      "error_response test_env (TypeError ''{ bucket, filepath } = body'')"
      "Error ''Missing required parameters: bucket and filepath''" "''test/test-video_thumbnail.jpg''"]
    response_headers[of test_env test_world mockEvent
      "success_response test_env ''test/test-video_thumbnail.jpg''"]
    test_run(1)
  by (simp add: handler_def handler_try_def parse_body_def request_of_def)

text \<open>
  Claim C7, amended. On every path on which the handler returns, the removal of the
  staged video has been attempted (an unlink, or the existence test of the catch block
  that guards it); the removal of the staged thumbnail has been attempted as well
  whenever the file system does not refuse to unlink the staged video; and where the file
  system refuses neither unlink, neither file is left, and a response with status 500
  leaves the store as it was. The cleanup of the catch block (lines 202 to 211) never
  raises and does not change the response, and on staged files that do not exist it only
  tests for them and changes nothing. The unlinks of the success path (lines 182 and 183)
  are not guarded; in the handler they never meet a missing file: a try block that throws
  after an unlink throws what the file system answered to the unlink of a staged file
  that exists.
\<close>

theorem staged_files_cleanup:
  "(handler env w event = (Fulfilled r, w') \<longrightarrow>
      (UnlinkSync (tmpVideoPath env) \<in> set (performed w w') \<or>
       ExistsSync (tmpVideoPath env) \<in> set (performed w w')) \<and>
      (unlink_fault env (tmpVideoPath env) = None \<longrightarrow>
         UnlinkSync (tmpThumbnailPath env) \<in> set (performed w w') \<or>
         ExistsSync (tmpThumbnailPath env) \<in> set (performed w w')) \<and>
      (unlink_fault env (tmpVideoPath env) = None \<and> unlink_fault env (tmpThumbnailPath env) = None \<longrightarrow>
         files w' (tmpVideoPath env) = None \<and> files w' (tmpThumbnailPath env) = None \<and>
         (statusCode r = 500 \<longrightarrow> objects w' = objects w))) \<and>
   (handler_try env w event = (Rejected e, w1) \<longrightarrow>
      handler env w event = (Fulfilled (error_response env e), cleanup_catch env w1) \<and>
      ((\<exists>p. UnlinkSync p \<in> set (performed w w1)) \<longrightarrow>
         unlink_fault env (tmpVideoPath env) = Some e \<or>
         unlink_fault env (tmpThumbnailPath env) = Some e)) \<and>
   (files w0 (tmpVideoPath env) = None \<and> files w0 (tmpThumbnailPath env) = None \<longrightarrow>
      files (cleanup_catch env w0) = files w0 \<and> objects (cleanup_catch env w0) = objects w0 \<and>
      performed w0 (cleanup_catch env w0) =
        [ExistsSync (tmpVideoPath env), ExistsSync (tmpThumbnailPath env)])"
proof -
  have returned:
     "(UnlinkSync (tmpVideoPath env) \<in> set (performed w w') \<or>
       ExistsSync (tmpVideoPath env) \<in> set (performed w w')) \<and>
      (unlink_fault env (tmpVideoPath env) = None \<longrightarrow>
         UnlinkSync (tmpThumbnailPath env) \<in> set (performed w w') \<or>
         ExistsSync (tmpThumbnailPath env) \<in> set (performed w w')) \<and>
      (unlink_fault env (tmpVideoPath env) = None \<and> unlink_fault env (tmpThumbnailPath env) = None \<longrightarrow>
         files w' (tmpVideoPath env) = None \<and> files w' (tmpThumbnailPath env) = None \<and>
         (statusCode r = 500 \<longrightarrow> objects w' = objects w))"
    if run: "handler env w event = (Fulfilled r, w')"
  proof (cases "handler_try env w event")
    case (Pair t w2)
    note tw = handler_try_world[OF Pair]
    show ?thesis
    proof (cases t)
      case (Fulfilled x)
      with Pair run have "r = x" "w' = w2" by (simp_all add: handler_def)
      with tw Fulfilled show ?thesis by auto
    next
      case (Rejected e')
      with Pair run have w': "w' = cleanup_catch env w2"
        by (simp_all add: handler_def)
      from tw obtain ops where ops: "trace w2 = trace w @ ops"
        by auto
      have obj: "objects w2 = objects w"
        if "unlink_fault env (tmpVideoPath env) = None \<and> unlink_fault env (tmpThumbnailPath env) = None"
        using tw Rejected that by auto
      have "performed w w' = ops @ performed w2 (cleanup_catch env w2)"
        unfolding w' using ops by (rule cleanup_catch_after)
      then have "performed w w' = ops @
         [ExistsSync (tmpVideoPath env)] @
         (if files w2 (tmpVideoPath env) = None then [] else [UnlinkSync (tmpVideoPath env)]) @
         (if files w2 (tmpVideoPath env) \<noteq> None \<and> unlink_fault env (tmpVideoPath env) \<noteq> None then []
          else [ExistsSync (tmpThumbnailPath env)] @
            (if files w2 (tmpThumbnailPath env) = None then []
             else [UnlinkSync (tmpThumbnailPath env)]))"
        by (simp only: cleanup_catch_performed)
      then show ?thesis
        using obj paths_distinct[of env] by (simp add: w' cleanup_catch_files cleanup_catch_objects)
    next
      case Pending
      with Pair run show ?thesis by (simp add: handler_def)
    qed
  qed
  have thrown: "handler env w event = (Fulfilled (error_response env e), cleanup_catch env w1) \<and>
      ((\<exists>p. UnlinkSync p \<in> set (performed w w1)) \<longrightarrow>
         unlink_fault env (tmpVideoPath env) = Some e \<or>
         unlink_fault env (tmpThumbnailPath env) = Some e)"
    if t: "handler_try env w event = (Rejected e, w1)"
  proof -
    from handler_try_world[OF t] obtain ops
      where "trace w1 = trace w @ ops"
        and "(\<exists>p. UnlinkSync p \<in> set ops) \<longrightarrow>
           unlink_fault env (tmpVideoPath env) = Some e \<or>
           unlink_fault env (tmpThumbnailPath env) = Some e"
      by auto
    then show ?thesis
      using handler_caught[OF t] by simp
  qed
  have absent: "files (cleanup_catch env w0) = files w0 \<and> objects (cleanup_catch env w0) = objects w0 \<and>
      performed w0 (cleanup_catch env w0) =
        [ExistsSync (tmpVideoPath env), ExistsSync (tmpThumbnailPath env)]"
    if "files w0 (tmpVideoPath env) = None \<and> files w0 (tmpThumbnailPath env) = None"
    using that by (simp add: cleanup_catch_performed cleanup_catch_absent cleanup_catch_objects)
  from returned thrown absent show ?thesis by blast
qed

theorem staged_files_cleanup_witness:
  "files (snd (handler test_env test_world mockEvent)) ''/tmp/input.mp4'' = None \<and>
   files (snd (handler test_env test_world mockEvent)) ''/tmp/thumbnail.jpg'' = None \<and>
   UnlinkSync ''/tmp/input.mp4'' \<in> set (performed test_world (snd (handler test_env test_world mockEvent))) \<and>
   UnlinkSync ''/tmp/thumbnail.jpg'' \<in> set (performed test_world (snd (handler test_env test_world mockEvent))) \<and>
   files (cleanup_catch test_env test_world) = files test_world \<and>
   performed test_world (cleanup_catch test_env test_world) =
     [ExistsSync ''/tmp/input.mp4'', ExistsSync ''/tmp/thumbnail.jpg''] \<and>
   handler locked_env test_world mockEvent =
     (Fulfilled (error_response locked_env (SystemError ''EPERM'' ''unlink'' ''/tmp/input.mp4'')),
      cleanup_catch locked_env (snd (handler_try locked_env test_world mockEvent))) \<and>
   unlink_fault locked_env ''/tmp/input.mp4'' = Some (SystemError ''EPERM'' ''unlink'' ''/tmp/input.mp4'')"
proof -
  have "handler test_env test_world mockEvent =
      (Fulfilled (success_response test_env ''test/test-video_thumbnail.jpg''),
       snd (handler test_env test_world mockEvent))"
    using test_run(1) by (simp add: prod_eq_iff)
  moreover have "files test_world (tmpVideoPath test_env) = None \<and>
      files test_world (tmpThumbnailPath test_env) = None"
    by (simp add: test_world_def)
  moreover have "unlink_fault test_env (tmpVideoPath test_env) = None \<and>
      unlink_fault test_env (tmpThumbnailPath test_env) = None"
    by (simp add: test_env_def)
  moreover have "trace (snd (handler test_env test_world mockEvent)) = trace test_world @
     [GetObject (JStr ''test-bucket'') (JStr ''test/test-video.mp4''),
      CreateWriteStream ''/tmp/input.mp4'',
      Screenshots ''/tmp/input.mp4'' ''50%'' ''thumbnail.jpg'' ''/tmp'' ''360x640'',
      CreateReadStream ''/tmp/thumbnail.jpg'',
      PutObject (JStr ''test-bucket'') ''test/test-video_thumbnail.jpg'' ''/tmp/thumbnail.jpg'' ''image/jpeg'',
      UnlinkSync ''/tmp/input.mp4'', UnlinkSync ''/tmp/thumbnail.jpg'']"
    using test_run(2) by (simp add: test_world_def)
  moreover have "handler_try locked_env test_world mockEvent =
      (Rejected (SystemError ''EPERM'' ''unlink'' ''/tmp/input.mp4''),
       snd (handler_try locked_env test_world mockEvent))"
    by (simp add: prod_eq_iff handler_defs stage_defs test_defs locked_env_def Let_def)
  ultimately show ?thesis
    using staged_files_cleanup[where env = test_env and w = test_world and event = mockEvent
        and r = "success_response test_env ''test/test-video_thumbnail.jpg''"
        and w' = "snd (handler test_env test_world mockEvent)" and ?w0.0 = test_world]
      staged_files_cleanup[where env = locked_env and w = test_world and event = mockEvent
        and e = "SystemError ''EPERM'' ''unlink'' ''/tmp/input.mp4''"
        and ?w1.0 = "snd (handler_try locked_env test_world mockEvent)"]
    by (simp add: tmpVideoPath_def tmpThumbnailPath_def path_join_def test_env_def locked_env_def)
qed

text \<open>
  Claim C7, as stated, fails. With both files of an earlier invocation left
  in the staging directory and a file system that refuses to unlink the video, a request
  without a body is answered with status 500 by a catch block that tests for the video,
  tries to unlink it, and stops: the thumbnail is neither tested for nor removed. And the
  cleanup of lines 182 and 183, run where the staged files do not exist, is not a no-op:
  it raises.
\<close>

theorem staged_files_cleanup_stops:
  "fst (handler locked_env stale_world (JObj [])) =
     Fulfilled (error_response locked_env (TypeError ''{ bucket, filepath } = body'')) \<and>
   statusCode (error_response locked_env (TypeError ''{ bucket, filepath } = body'')) = 500 \<and>
   performed stale_world (snd (handler locked_env stale_world (JObj []))) =
     [ExistsSync ''/tmp/input.mp4'', UnlinkSync ''/tmp/input.mp4''] \<and>
   files (snd (handler locked_env stale_world (JObj []))) ''/tmp/input.mp4'' = Some ''OLD VIDEO'' \<and>
   files (snd (handler locked_env stale_world (JObj []))) ''/tmp/thumbnail.jpg'' = Some ''OLD JPEG'' \<and>
   files test_world ''/tmp/input.mp4'' = None \<and>
   fst (cleanup_success test_env test_world) = Some (SystemError ''ENOENT'' ''unlink'' ''/tmp/input.mp4'')"
  by (simp add: handler_defs stage_defs test_defs locked_env_def stale_world_def performed_def Let_def)

text \<open>
  Claim C2. The handler does not always return a response. The promise of lines 132 to
  143 listens to the write stream only; when the body of the GetObject response emits an
  error before it ends, neither listener runs, the awaited promise never settles, and the
  handler's promise stays pending: no response, with status 200 or 500, is returned. The
  helper \<open>streamS3ToFile\<close>, given the same download, rejects with the body's error.
\<close>

theorem handler_pending_on_body_error:
  "fst (handler aborted_env test_world mockEvent) = Pending \<and>
   fst (streamS3ToFile aborted_env test_world (JStr ''test-bucket'') (JStr ''test/test-video.mp4'')
          ''/tmp/input.mp4'') = Rejected (ServiceError ''aborted'' ''stack'')"
  by (simp add: handler_defs stage_defs test_defs aborted_env_def streamS3ToFile_def Let_def)

text \<open>
  Claim C4. A source key with no extension is its own destination key: the pattern of
  line 167 does not match \<open>videos/a\<close>, the key is left as it is, and the PutObject of the
  thumbnail replaces the source video.
\<close>

theorem thumbnailKey_without_extension:
  "thumbnailKey (JStr ''videos/a'') = Inr ''videos/a'' \<and>
   fst (handler test_env plain_world plain_event) = Fulfilled (success_response test_env ''videos/a'') \<and>
   filter is_put (performed plain_world (snd (handler test_env plain_world plain_event))) =
     [PutObject (JStr ''test-bucket'') ''videos/a'' ''/tmp/thumbnail.jpg'' ''image/jpeg''] \<and>
   objects plain_world (JStr ''test-bucket'', ''videos/a'') =
     Some \<lparr>content = ''VIDEO'', content_type = ''video/mp4''\<rparr> \<and>
   objects (snd (handler test_env plain_world plain_event)) (JStr ''test-bucket'', ''videos/a'') =
     Some \<lparr>content = ''JPEG'', content_type = ''image/jpeg''\<rparr>"
  by (simp add: handler_defs stage_defs test_defs plain_world_def plain_event_def performed_def Let_def)

text \<open>
  What the handler does return: never a rejection, and for an error thrown in the try
  block the response with status 500 whose body holds the three strings. An event with
  no body and a body that does not parse are two such errors.
\<close>

lemma error_response_body:
  "body (error_response env e) = json_stringify env (JObj
     [(''message'', JStr ''Error generating thumbnail''),
      (''error'', JStr (err_message env e)),
      (''stack'', JStr (err_stack env e))])"
  by (simp add: error_response_def)

lemma handler_missing_body:
  "fst (handler env w (JObj [])) = Fulfilled (error_response env (TypeError ''{ bucket, filepath } = body''))"
  by (simp add: handler_def handler_try_def parse_body_def request_of_def)

lemma handler_unparseable_body:
  "json_parse env s = None \<Longrightarrow>
   fst (handler env w (JObj [(''body'', JStr s)])) = Fulfilled (error_response env (SyntaxError s))"
  by (simp add: handler_def handler_try_def parse_body_def)

lemma handler_settled:
  "fst (handler_try env w event) \<noteq> Pending \<Longrightarrow>
   (\<exists>key. fst (handler env w event) = Fulfilled (success_response env key)) \<or>
   (\<exists>e. fst (handler env w event) = Fulfilled (error_response env e))"
proof (cases "handler_try env w event")
  case (Pair t w1)
  assume "fst (handler_try env w event) \<noteq> Pending"
  with Pair show ?thesis
  proof (cases t)
    case (Fulfilled x)
    from Pair Fulfilled have "\<exists>k. x = success_response env k"
      by (auto simp: handler_try_def process_def
          split: sum.splits prod.splits completion.splits option.splits)
    with Pair Fulfilled show ?thesis by (auto simp: handler_def)
  qed (auto simp: handler_def)
qed

subsection \<open>The unused helpers\<close>

subsubsection \<open>Rounding to a double\<close>

lemma fl_zero [simp]: "fl 0 = 0"
  by (simp add: fl_def)

lemma round_even_error: "\<bar>of_int (round_even q) - q\<bar> \<le> 1 / 2"
proof -
  have "of_int \<lfloor>q\<rfloor> \<le> q" "q < of_int \<lfloor>q\<rfloor> + 1"
    by linarith+
  then show ?thesis
    by (auto simp: round_even_def Let_def abs_le_iff)
qed

lemma round_even_int [simp]: "round_even (of_int n) = n"
  by (simp add: round_even_def)

lemma powi_nat: "0 \<le> k \<Longrightarrow> (2::rat) powi k = 2 ^ nat k"
  by (simp add: power_int_def)

lemma bitlen_rat_bounds:
  assumes "0 < a"
  shows "(2::rat) powi (bitlen a - 1) \<le> of_int a" and "of_int a < (2::rat) powi (bitlen a)"
proof -
  have pos: "1 \<le> bitlen a"
    using assms bitlen_eq_zero_iff[of a] bitlen_nonneg[of a] by linarith
  from bitlen_bounds[OF assms] have lo: "2 ^ nat (bitlen a - 1) \<le> a" and hi: "a < 2 ^ nat (bitlen a)"
    by simp_all
  have "(2::rat) powi (bitlen a - 1) = of_int (2 ^ nat (bitlen a - 1))"
    using pos by (simp add: powi_nat)
  also have "\<dots> \<le> of_int a"
    using lo by (simp only: of_int_le_iff)
  finally show "(2::rat) powi (bitlen a - 1) \<le> of_int a" .
  have "(of_int a :: rat) < of_int (2 ^ nat (bitlen a))"
    using hi by (simp only: of_int_less_iff)
  also have "\<dots> = 2 powi (bitlen a)"
    using pos by (simp add: powi_nat)
  finally show "of_int a < (2::rat) powi (bitlen a)" .
qed

lemma exponent_of_bounds:
  assumes "0 < x"
  shows "2 powi (exponent_of x) \<le> x" and "x < 2 powi (exponent_of x + 1)"
proof -
  obtain a b where q: "quotient_of x = (a, b)"
    by (cases "quotient_of x")
  have b: "0 < b"
    using quotient_of_denom_pos[OF q] .
  have x: "x = of_int a / of_int b"
    using quotient_of_div[OF q] .
  have a: "0 < a"
    using assms b x by (simp add: zero_less_divide_iff)
  define d where "d = bitlen a - bitlen b"
  note A = bitlen_rat_bounds[OF a] and B = bitlen_rat_bounds[OF b]
  have bpos: "(0::rat) < of_int b" using b by simp
  have p: "(0::rat) < 2 powi k" for k by (simp add: zero_less_power_int)
  have "x < 2 powi (bitlen a) / 2 powi (bitlen b - 1)"
    unfolding x using A(2) B(1) bpos p[of "bitlen b - 1"]
    by (meson frac_less less_imp_le of_int_0_le_iff a less_le_trans order.refl)
  also have "\<dots> = 2 powi (bitlen a - (bitlen b - 1))"
    by (simp add: power_int_diff)
  also have "bitlen a - (bitlen b - 1) = d + 1"
    by (simp add: d_def)
  finally have up: "x < 2 powi (d + 1)" .
  have "2 powi (bitlen a - 1) / 2 powi (bitlen b) < x"
    unfolding x using A(1) B(2) bpos p[of "bitlen a - 1"]
    by (meson frac_less2 less_imp_le order.refl)
  moreover have "2 powi (bitlen a - 1) / 2 powi (bitlen b) = (2::rat) powi (bitlen a - 1 - bitlen b)"
    by (simp add: power_int_diff)
  moreover have "bitlen a - 1 - bitlen b = d - 1"
    by (simp add: d_def)
  ultimately have low: "2 powi (d - 1) < x" by simp
  have e: "exponent_of x = (if 2 powi d \<le> x then d else d - 1)"
    using assms q by (simp add: exponent_of_def d_def)
  show "2 powi (exponent_of x) \<le> x"
    using low by (simp add: e)
  show "x < 2 powi (exponent_of x + 1)"
    using up by (auto simp: e not_le)
qed


lemma exponent_of_abs [simp]: "exponent_of \<bar>x\<bar> = exponent_of x"
  by (simp add: exponent_of_def)

lemma fl_error_ulp:
  assumes "x \<noteq> 0"
  shows "\<bar>fl x - x\<bar> \<le> 2 powi (exponent_of x - 53)"
proof -
  define ulp :: rat where "ulp = 2 powi (exponent_of x - 52)"
  have ulp: "0 < ulp"
    by (simp add: ulp_def zero_less_power_int)
  have "fl x - x = (of_int (round_even (x / ulp)) - x / ulp) * ulp"
    using assms ulp by (simp add: fl_def ulp_def[symmetric] algebra_simps)
  then have "\<bar>fl x - x\<bar> = \<bar>of_int (round_even (x / ulp)) - x / ulp\<bar> * ulp"
    using ulp by (simp add: abs_mult)
  also have "\<dots> \<le> 1 / 2 * ulp"
    using round_even_error[of "x / ulp"] ulp by (intro mult_right_mono) simp_all
  also have "1 / 2 * ulp = 2 powi (exponent_of x - 52 - 1)"
    unfolding ulp_def by (subst power_int_diff[of 2 "exponent_of x - 52" 1]) simp_all
  also have "exponent_of x - 52 - 1 = exponent_of x - 53"
    by simp
  finally show ?thesis .
qed

lemma fl_error: "\<bar>fl x - x\<bar> \<le> \<bar>x\<bar> / 2 ^ 53"
proof (cases "x = 0")
  case True
  then show ?thesis by (simp add: fl_def)
next
  case False
  then have "0 < \<bar>x\<bar>" by simp
  from exponent_of_bounds(1)[OF this] have "2 powi (exponent_of x) \<le> \<bar>x\<bar>"
    by simp
  moreover have "(2::rat) powi (exponent_of x - 53) = 2 powi (exponent_of x) / 2 ^ 53"
    by (subst power_int_diff) simp_all
  ultimately have "(2::rat) powi (exponent_of x - 53) \<le> \<bar>x\<bar> / 2 ^ 53"
    by (simp add: divide_right_mono)
  with fl_error_ulp[OF False] show ?thesis
    by linarith
qed

text \<open>A number with a significand of at most 53 bits is a double.\<close>

lemma fl_exact:
  assumes "\<bar>n\<bar> < 2 ^ 53"
  shows "fl (of_int n * 2 powi j) = of_int n * 2 powi j"
proof (cases "n = 0")
  case True
  then show ?thesis by (simp add: fl_def)
next
  case False
  define x :: rat where "x = of_int n * 2 powi j"
  have p: "(0::rat) < 2 powi k" for k by (simp add: zero_less_power_int)
  have x0: "x \<noteq> 0"
    using False p[of j] by (simp add: x_def)
  have absx: "\<bar>x\<bar> = of_int \<bar>n\<bar> * 2 powi j"
    using p[of j] by (simp add: x_def abs_mult)
  have "(of_int \<bar>n\<bar> :: rat) < of_int (2 ^ 53)"
    using assms by (simp only: of_int_less_iff)
  then have "\<bar>x\<bar> < 2 ^ 53 * 2 powi j"
    unfolding absx using p[of j] by (intro mult_strict_right_mono) simp_all
  also have "\<dots> = 2 powi (53 + j)"
    by (subst power_int_add) simp_all
  finally have "2 powi (exponent_of x) < (2::rat) powi (53 + j)"
    using exponent_of_bounds(1)[of "\<bar>x\<bar>"] x0 by simp
  then have "exponent_of x < 53 + j"
  proof -
    assume lt: "2 powi (exponent_of x) < (2::rat) powi (53 + j)"
    show ?thesis
    proof (rule ccontr)
      assume "\<not> exponent_of x < 53 + j"
      then have "53 + j \<le> exponent_of x" by simp
      then have "(2::rat) powi (53 + j) \<le> 2 powi (exponent_of x)"
        by (intro power_int_increasing) simp_all
      with lt show False by simp
    qed
  qed
  then have "0 \<le> j - (exponent_of x - 52)"
    by simp
  then obtain k where k: "j - (exponent_of x - 52) = int k"
    using nonneg_int_cases by blast
  have "x / 2 powi (exponent_of x - 52) = of_int n * 2 powi (j - (exponent_of x - 52))"
    unfolding x_def by (subst power_int_diff) simp_all
  also have "\<dots> = of_int (n * 2 ^ k)"
    by (simp add: k)
  finally have q: "x / 2 powi (exponent_of x - 52) = of_int (n * 2 ^ k)" .
  have "fl x = of_int (n * 2 ^ k) * 2 powi (exponent_of x - 52)"
    using x0 by (simp add: fl_def Let_def q del: of_int_mult of_int_power)
  also have "\<dots> = x"
    using q p[of "exponent_of x - 52"] by (simp add: field_simps del: of_int_mult of_int_power)
  finally show ?thesis
    by (simp add: x_def)
qed

lemma fl_int: "\<bar>n\<bar> < 2 ^ 53 \<Longrightarrow> fl (of_int n) = of_int n"
  using fl_exact[of n 0] by simp

lemma fl_half_int: "\<bar>n\<bar> < 2 ^ 53 \<Longrightarrow> fl (of_int n / 2) = of_int n / 2"
  using fl_exact[of n "- 1"] by (simp add: power_int_minus field_simps)



lemma fl_tenth: "fl (1 / 10) = 3602879701896397 / 36028797018963968"
  by code_simp

text \<open>Rounding the double nearest to a quotient of integers gives the rounded quotient.\<close>

lemma round_quotient_exact:
  fixes a b :: nat
  assumes "0 < b" and "2 * a < 2 ^ 53"
  shows "\<lfloor>fl (of_nat a / of_nat b) + 1 / 2\<rfloor> = \<lfloor>(of_nat a / of_nat b :: rat) + 1 / 2\<rfloor>"
proof -
  define q :: rat where "q = of_nat a / of_nat b"
  define m where "m = \<lfloor>q + 1 / 2\<rfloor>"
  have B: "(0::rat) < of_nat b" using assms(1) by simp
  have q0: "0 \<le> q" by (simp add: q_def)
  have m_lo: "of_int m \<le> q + 1 / 2" and m_hi: "q + 1 / 2 < of_int m + 1"
    unfolding m_def by linarith+
  have m0: "0 \<le> m"
    unfolding m_def using q0 by simp
  have qa: "q \<le> of_nat a"
  proof -
    have "(1::rat) \<le> of_nat b" using assms(1) by simp
    then have "of_nat a / of_nat b \<le> (of_nat a :: rat) / 1"
      by (intro divide_left_mono) simp_all
    then show ?thesis by (simp add: q_def)
  qed
  have a53: "(of_nat a :: rat) * 2 < 2 ^ 53"
  proof -
    have "(of_nat (2 * a) :: rat) < of_nat (2 ^ 53)"
      using assms(2) by (simp only: of_nat_less_iff)
    then show ?thesis by simp
  qed
  have err: "\<bar>fl q - q\<bar> < 1 / (2 * of_nat b)"
  proof -
    have "\<bar>fl q - q\<bar> \<le> q / 2 ^ 53"
      using fl_error[of q] q0 by simp
    also have "\<dots> = of_nat a / 2 ^ 53 / of_nat b"
      by (simp add: q_def)
    also have "\<dots> < (1 / 2) / of_nat b"
      using a53 B by (intro divide_strict_right_mono) simp_all
    finally show ?thesis by simp
  qed
  define k :: int where "k = 2 * int a + int b - 2 * int b * m"
  have k: "q + 1 / 2 - of_int m = of_int k / (2 * of_nat b)"
    using B by (simp add: k_def q_def field_simps)
  have "\<lfloor>fl q + 1 / 2\<rfloor> = m"
  proof (cases "k = 0")
    case True
    with k have qm: "q = of_int (2 * m - 1) / 2"
      by simp
    have "2 * m - 1 \<le> 2 * int a"
    proof -
      have "of_int (2 * m - 1) = 2 * q" using qm by simp
      also have "\<dots> \<le> 2 * of_nat a" using qa by simp
      finally have "(of_int (2 * m - 1) :: rat) \<le> of_int (2 * int a)" by simp
      then show ?thesis by (simp only: of_int_le_iff)
    qed
    then have "\<bar>2 * m - 1\<bar> < 2 ^ 53"
      using m0 assms(2) by (simp add: abs_if)
    then have "fl q = q"
      unfolding qm by (rule fl_half_int)
    then show ?thesis
      by (simp add: m_def)
  next
    case False
    have "0 \<le> of_int k / (2 * of_nat b :: rat)"
      using m_lo k by simp
    then have "0 \<le> k"
      using B by (simp add: zero_le_divide_iff)
    with False have "1 \<le> k" by simp
    then have "(1::rat) \<le> of_int k" by simp
    then have lo: "1 / (2 * of_nat b) \<le> q + 1 / 2 - of_int m"
      unfolding k using B by (intro divide_right_mono) simp_all
    have "of_int k / (2 * of_nat b :: rat) < 1"
      using m_hi k by simp
    then have "of_int k < (2 * of_nat b :: rat)"
      using B by simp
    then have "(of_int k :: rat) < of_int (2 * int b)"
      by simp
    then have "k < 2 * int b"
      by (simp only: of_int_less_iff)
    then have "k + 1 \<le> 2 * int b" by simp
    then have "(of_int (k + 1) :: rat) \<le> of_int (2 * int b)"
      by (simp only: of_int_le_iff)
    then have "of_int k + 1 \<le> (2 * of_nat b :: rat)"
      by simp
    then have "(of_int k + 1) / (2 * of_nat b) \<le> (2 * of_nat b :: rat) / (2 * of_nat b)"
      using B by (intro divide_right_mono) simp_all
    then have hi: "q + 1 / 2 - of_int m + 1 / (2 * of_nat b) \<le> 1"
      using B by (simp add: k add_divide_distrib)
    show ?thesis
    proof (rule floor_unique)
      show "of_int m \<le> fl q + 1 / 2"
        using lo err by (simp add: abs_less_iff)
      show "fl q + 1 / 2 < of_int m + 1"
        using hi err by (simp add: abs_less_iff)
    qed
  qed
  then show ?thesis
    by (simp add: q_def m_def)
qed


text \<open>
  The ratio of two integers is never close to the threshold without being on it: its
  distance from 16/9 differs from 1/10 by a multiple of \<open>1 / (90 w)\<close>.
\<close>

lemma gap_integral:
  fixes w h :: nat
  assumes "0 < w"
  shows "\<bar>(of_nat h / of_nat w :: rat) - 16 / 9\<bar> - 1 / 10 =
         of_int (10 * \<bar>9 * int h - 16 * int w\<bar> - 9 * int w) / (90 * of_nat w)"
proof -
  have W: "(0::rat) < of_nat w" using assms by simp
  have "(of_nat h / of_nat w :: rat) - 16 / 9 = of_int (9 * int h - 16 * int w) / (9 * of_nat w)"
    using W by (simp add: field_simps)
  then have "\<bar>(of_nat h / of_nat w :: rat) - 16 / 9\<bar> = of_int \<bar>9 * int h - 16 * int w\<bar> / (9 * of_nat w)"
    using W by (simp only: abs_divide of_int_abs)
  then show ?thesis
    using W by (simp add: field_simps)
qed

lemma gap_near:
  fixes w h :: nat
  assumes "0 < w" and "\<bar>(of_nat h / of_nat w :: rat) - 16 / 9\<bar> < 1 / 10"
  shows "\<bar>(of_nat h / of_nat w :: rat) - 16 / 9\<bar> \<le> 1 / 10 - 1 / (90 * of_nat w)"
proof -
  define k where "k = 10 * \<bar>9 * int h - 16 * int w\<bar> - 9 * int w"
  have W: "(0::rat) < 90 * of_nat w" using assms(1) by simp
  have g: "\<bar>(of_nat h / of_nat w :: rat) - 16 / 9\<bar> - 1 / 10 = of_int k / (90 * of_nat w)"
    unfolding k_def by (rule gap_integral[OF assms(1)])
  with assms(2) have "of_int k / (90 * of_nat w :: rat) < 0" by simp
  with W have "(of_int k :: rat) < 0" by (simp add: divide_less_0_iff)
  then have "k \<le> - 1" by simp
  then have "(of_int k :: rat) \<le> - 1" by (metis of_int_le_iff of_int_minus of_int_1)
  then have "of_int k / (90 * of_nat w :: rat) \<le> - 1 / (90 * of_nat w)"
    using W by (intro divide_right_mono) simp_all
  with g show ?thesis by simp
qed

lemma gap_far:
  fixes w h :: nat
  assumes "0 < w" and "1 / 10 < \<bar>(of_nat h / of_nat w :: rat) - 16 / 9\<bar>"
  shows "1 / 10 + 1 / (90 * of_nat w) \<le> \<bar>(of_nat h / of_nat w :: rat) - 16 / 9\<bar>"
proof -
  define k where "k = 10 * \<bar>9 * int h - 16 * int w\<bar> - 9 * int w"
  have W: "(0::rat) < 90 * of_nat w" using assms(1) by simp
  have g: "\<bar>(of_nat h / of_nat w :: rat) - 16 / 9\<bar> - 1 / 10 = of_int k / (90 * of_nat w)"
    unfolding k_def by (rule gap_integral[OF assms(1)])
  with assms(2) have "0 < of_int k / (90 * of_nat w :: rat)" by simp
  with W have "(0::rat) < of_int k" by (simp add: zero_less_divide_iff)
  then have "1 \<le> k" by simp
  then have "(1::rat) \<le> of_int k" by simp
  then have "1 / (90 * of_nat w :: rat) \<le> of_int k / (90 * of_nat w)"
    using W by (intro divide_right_mono) simp_all
  with g show ?thesis by simp
qed

lemma small_width:
  fixes w :: nat
  assumes "0 < w" and "w < 2 ^ 32"
  shows "1 / 386547056640 \<le> 1 / (90 * of_nat w :: rat)"
proof -
  have "(of_nat w :: rat) \<le> of_nat (2 ^ 32)"
    using assms(2) by (simp only: of_nat_le_iff)
  then have "90 * (of_nat w :: rat) \<le> 386547056640" by simp
  then show ?thesis
    using assms(1) by (intro divide_left_mono) simp_all
qed

lemma ratio_near:
  fixes w h :: nat
  assumes "0 < w" and "w < 2 ^ 32"
    and "\<bar>(of_nat h / of_nat w :: rat) - 16 / 9\<bar> < 1 / 10"
  shows "\<bar>fl (fl (of_nat h / of_nat w) - fl (16 / 9))\<bar> \<le> fl (1 / 10)"
proof -
  define \<rho> :: rat where "\<rho> = of_nat h / of_nat w"
  define r t where "r = fl \<rho>" and "t = fl (16 / 9)"
  have \<rho>0: "0 \<le> \<rho>" by (simp add: \<rho>_def)
  have g: "\<bar>\<rho> - 16 / 9\<bar> \<le> 1 / 10 - 1 / 386547056640"
    using gap_near[OF assms(1,3)] small_width[OF assms(1,2)] by (simp add: \<rho>_def)
  have er: "\<bar>r - \<rho>\<bar> \<le> \<rho> / 2 ^ 53"
    using fl_error[of \<rho>] \<rho>0 by (simp add: r_def)
  have et: "\<bar>t - 16 / 9\<bar> \<le> (16 / 9) / 2 ^ 53"
    using fl_error[of "16 / 9"] by (simp add: t_def)
  have ed: "\<bar>fl (r - t) - (r - t)\<bar> \<le> \<bar>r - t\<bar> / 2 ^ 53"
    by (rule fl_error)
  have "\<bar>fl (r - t)\<bar> \<le> 1 / 10"
    using g er et ed by (simp add: abs_le_iff abs_if split: if_splits) 
  then show ?thesis
    by (simp add: fl_tenth r_def t_def \<rho>_def)
qed


lemma ratio_above:
  fixes w h :: nat
  assumes "0 < w" and "w < 2 ^ 32"
    and "1 / 10 < (of_nat h / of_nat w :: rat) - 16 / 9"
  shows "fl (1 / 10) < fl (fl (of_nat h / of_nat w) - fl (16 / 9))"
    and "fl (16 / 9) < fl (of_nat h / of_nat w)"
proof -
  define \<rho> :: rat where "\<rho> = of_nat h / of_nat w"
  define r t where "r = fl \<rho>" and "t = fl (16 / 9)"
  have \<rho>0: "0 \<le> \<rho>" by (simp add: \<rho>_def)
  have "1 / 10 < \<bar>(of_nat h / of_nat w :: rat) - 16 / 9\<bar>"
    using assms(3) by simp
  from gap_far[OF assms(1) this] small_width[OF assms(1,2)] assms(3)
  have g: "1 / 10 + 1 / 386547056640 \<le> \<rho> - 16 / 9"
    by (simp add: \<rho>_def)
  have er: "\<bar>r - \<rho>\<bar> \<le> \<rho> / 2 ^ 53"
    using fl_error[of \<rho>] \<rho>0 by (simp add: r_def)
  have et: "\<bar>t - 16 / 9\<bar> \<le> (16 / 9) / 2 ^ 53"
    using fl_error[of "16 / 9"] by (simp add: t_def)
  have ed: "\<bar>fl (r - t) - (r - t)\<bar> \<le> \<bar>r - t\<bar> / 2 ^ 53"
    by (rule fl_error)
  have p: "(2::rat) ^ 53 = 9007199254740992" by simp
  have rt: "1 / 10 + 1 / 773094113280 \<le> r - t"
    using g er et unfolding p by linarith
  then have "1 / 10 + 1 / 1546188226560 \<le> fl (r - t)"
    using ed by (simp add: abs_le_iff abs_if split: if_splits)
  then show "fl (1 / 10) < fl (fl (of_nat h / of_nat w) - fl (16 / 9))"
    by (simp add: fl_tenth r_def t_def \<rho>_def)
  from rt show "fl (16 / 9) < fl (of_nat h / of_nat w)"
    by (simp add: r_def t_def \<rho>_def)
qed

lemma ratio_below:
  fixes w h :: nat
  assumes "0 < w" and "w < 2 ^ 32"
    and "1 / 10 < 16 / 9 - (of_nat h / of_nat w :: rat)"
  shows "fl (fl (of_nat h / of_nat w) - fl (16 / 9)) < - fl (1 / 10)"
    and "fl (of_nat h / of_nat w) < fl (16 / 9)"
proof -
  define \<rho> :: rat where "\<rho> = of_nat h / of_nat w"
  define r t where "r = fl \<rho>" and "t = fl (16 / 9)"
  have \<rho>0: "0 \<le> \<rho>" by (simp add: \<rho>_def)
  have "1 / 10 < \<bar>(of_nat h / of_nat w :: rat) - 16 / 9\<bar>"
    using assms(3) by simp
  from gap_far[OF assms(1) this] small_width[OF assms(1,2)] assms(3)
  have g: "1 / 10 + 1 / 386547056640 \<le> 16 / 9 - \<rho>"
    by (simp add: \<rho>_def)
  have er: "\<bar>r - \<rho>\<bar> \<le> \<rho> / 2 ^ 53"
    using fl_error[of \<rho>] \<rho>0 by (simp add: r_def)
  have et: "\<bar>t - 16 / 9\<bar> \<le> (16 / 9) / 2 ^ 53"
    using fl_error[of "16 / 9"] by (simp add: t_def)
  have ed: "\<bar>fl (r - t) - (r - t)\<bar> \<le> \<bar>r - t\<bar> / 2 ^ 53"
    by (rule fl_error)
  have p: "(2::rat) ^ 53 = 9007199254740992" by simp
  have rt: "1 / 10 + 1 / 773094113280 \<le> t - r"
    using g er et \<rho>0 unfolding p by linarith
  then have "fl (r - t) \<le> - (1 / 10 + 1 / 1546188226560)"
    using ed by (simp add: abs_le_iff abs_if split: if_splits)
  then show "fl (fl (of_nat h / of_nat w) - fl (16 / 9)) < - fl (1 / 10)"
    by (simp add: fl_tenth r_def t_def \<rho>_def)
  from rt show "fl (of_nat h / of_nat w) < fl (16 / 9)"
    by (simp add: r_def t_def \<rho>_def)
qed

subsubsection \<open>The size of the thumbnail\<close>

lemma base_height: "Math_round (js_div (js_mul (Num 360) (Num 16)) (Num 9)) = Num 640"
  by code_simp

lemma thumbnail_size_examples:
  "thumbnail_size (Num 1080) (Num 1920) = (Num 360, Num 640)"
  "thumbnail_size (Num 1920) (Num 1080) = (Num 1138, Num 640)"
  "thumbnail_size (Num 90) (Num 169) = (Num 360, Num 676)"
  "thumbnail_size (Num 90) (Num 151) = (Num 360, Num 640)"
  by code_simp+

lemma fl_nat: "n < 2 ^ 53 \<Longrightarrow> fl (of_nat n) = of_nat n"
  using fl_int[of "int n"] by simp

lemma boundary_doubles:
  "fl (1 / 10) < \<bar>fl (fl (169 / 90) - fl (16 / 9))\<bar>"
  "fl (16 / 9) < fl (169 / 90)"
  "\<not> fl (1 / 10) < \<bar>fl (fl (151 / 90) - fl (16 / 9))\<bar>"
  by code_simp+

lemma far_iff:
  fixes w h :: nat
  assumes "0 < w"
  shows "js_gt (Math_abs (js_sub (js_div (Num (of_nat h)) (Num (of_nat w))) (js_div (Num 16) (Num 9))))
            (Num (fl (1 / 10))) =
         (fl (1 / 10) < \<bar>fl (fl (of_nat h / of_nat w) - fl (16 / 9))\<bar>)"
    and "js_gt (js_div (Num (of_nat h)) (Num (of_nat w))) (js_div (Num 16) (Num 9)) =
         (fl (16 / 9) < fl (of_nat h / of_nat w))"
  using assms by simp_all

lemma recomputed_height:
  fixes w h :: nat
  assumes "0 < w" and "h < 2 ^ 32"
  shows "Math_round (js_div (js_mul (Num 360) (Num (of_nat h))) (Num (of_nat w))) =
         Num (of_int \<lfloor>360 * (of_nat h / of_nat w :: rat) + 1 / 2\<rfloor>)"
proof -
  have small: "2 * (360 * h) < 2 ^ 53"
    using assms(2) by simp
  then have "360 * h < 2 ^ 53" by simp
  then have "fl (of_nat (360 * h)) = of_nat (360 * h)"
    by (rule fl_nat)
  then have "js_mul (Num 360) (Num (of_nat h)) = Num (of_nat (360 * h))"
    by simp
  then have "Math_round (js_div (js_mul (Num 360) (Num (of_nat h))) (Num (of_nat w))) =
      Num (of_int \<lfloor>fl (of_nat (360 * h) / of_nat w) + 1 / 2\<rfloor>)"
    using assms(1) by simp
  also have "\<dots> = Num (of_int \<lfloor>(of_nat (360 * h) / of_nat w :: rat) + 1 / 2\<rfloor>)"
    using round_quotient_exact[OF assms(1) small] by simp
  finally show ?thesis by simp
qed

lemma recomputed_width:
  fixes w h :: nat
  assumes "0 < h" and "w < 2 ^ 32"
  shows "Math_round (js_div (js_mul (Num 640) (Num (of_nat w))) (Num (of_nat h))) =
         Num (of_int \<lfloor>640 * (of_nat w / of_nat h :: rat) + 1 / 2\<rfloor>)"
proof -
  have small: "2 * (640 * w) < 2 ^ 53"
    using assms(2) by simp
  then have "640 * w < 2 ^ 53" by simp
  then have "fl (of_nat (640 * w)) = of_nat (640 * w)"
    by (rule fl_nat)
  then have "js_mul (Num 640) (Num (of_nat w)) = Num (of_nat (640 * w))"
    by simp
  then have "Math_round (js_div (js_mul (Num 640) (Num (of_nat w))) (Num (of_nat h))) =
      Num (of_int \<lfloor>fl (of_nat (640 * w) / of_nat h) + 1 / 2\<rfloor>)"
    using assms(1) by simp
  also have "\<dots> = Num (of_int \<lfloor>(of_nat (640 * w) / of_nat h :: rat) + 1 / 2\<rfloor>)"
    using round_quotient_exact[OF assms(1) small] by simp
  finally show ?thesis by simp
qed


lemma thumbnail_size_cases:
  fixes w h :: nat
  assumes "0 < w"
  shows "thumbnail_size (Num (of_nat w)) (Num (of_nat h)) =
     (if fl (1 / 10) < \<bar>fl (fl (of_nat h / of_nat w) - fl (16 / 9))\<bar> then
        if fl (16 / 9) < fl (of_nat h / of_nat w)
        then (Num 360, Math_round (js_div (js_mul (Num 360) (Num (of_nat h))) (Num (of_nat w))))
        else (Math_round (js_div (js_mul (Num 640) (Num (of_nat w))) (Num (of_nat h))), Num 640)
      else (Num 360, Num 640))"
  unfolding thumbnail_size_def Let_def base_height far_iff[OF assms] by simp

text \<open>
  Claim C8, as stated, fails: a file with one audio stream and no video stream is probed
  without an error, and the inspection resolves with the audio stream; a file with no
  stream at all makes it resolve with \<open>undefined\<close>.
\<close>

theorem getVideoDimensions_no_video:
  "filter (\<lambda>s. codec_type s = ''video'') [audio_stream] = [] \<and>
   fst (getVideoDimensions audio_env staged_world ''/tmp/input.mp4'') = Fulfilled (Some audio_stream) \<and>
   fst (getVideoDimensions empty_env staged_world ''/tmp/input.mp4'') = Fulfilled None"
  by (simp add: getVideoDimensions_def audio_env_def empty_env_def audio_stream_def test_env_def
      staged_world_def Let_def)

text \<open>
  Claim C8, amended. The inspection resolves with the first stream of the probed metadata
  whenever ffprobe succeeds, whatever kind of stream it is, and with \<open>undefined\<close> when the
  metadata lists no stream; it fails exactly when ffprobe reports an error, and with that
  error. The caller reads the width and the height from the stream it is given: it throws
  a TypeError when there is none, and otherwise asks for a screenshot of the size computed
  from the two numbers.
\<close>

theorem getVideoDimensions_first_stream:
  "(ffprobe_run env (files w p) = Inl err \<longrightarrow>
      getVideoDimensions env w p = (Rejected err, log_op (Ffprobe p) w) \<and>
      generateThumbnail env w p out = (Rejected err, log_op (Ffprobe p) w)) \<and>
   (ffprobe_run env (files w p) = Inr md \<and> streams md = s # rest \<longrightarrow>
      getVideoDimensions env w p = (Fulfilled (Some s), log_op (Ffprobe p) w) \<and>
      generateThumbnail env w p out =
        screenshots env (log_op (Ffprobe p) w) p ''00:00:01.000''
          (path_basename env out) (path_dirname env out)
          (show_number (fst (thumbnail_size (to_number (width s)) (to_number (height s)))) @ ''x'' @
           show_number (snd (thumbnail_size (to_number (width s)) (to_number (height s)))))) \<and>
   (ffprobe_run env (files w p) = Inr md \<and> streams md = [] \<longrightarrow>
      getVideoDimensions env w p = (Fulfilled None, log_op (Ffprobe p) w) \<and>
      generateThumbnail env w p out =
        (Rejected (TypeError ''{ width, height } = stream''), log_op (Ffprobe p) w)) \<and>
   ((fst (getVideoDimensions env w p) = Rejected e) = (ffprobe_run env (files w p) = Inl e))"
  by (auto simp: getVideoDimensions_def generateThumbnail_def Let_def
      split: sum.splits list.splits prod.splits)

theorem getVideoDimensions_first_stream_witness:
  "getVideoDimensions test_env staged_world ''/tmp/input.mp4'' =
     (Fulfilled (Some \<lparr>codec_type = ''video'', width = Some 1080, height = Some 1920\<rparr>),
      log_op (Ffprobe ''/tmp/input.mp4'') staged_world) \<and>
   getVideoDimensions test_env test_world ''/tmp/input.mp4'' =
     (Rejected (ServiceError ''ffprobe exited with code 1'' ''stack''),
      log_op (Ffprobe ''/tmp/input.mp4'') test_world) \<and>
   generateThumbnail empty_env staged_world ''/tmp/input.mp4'' ''/tmp/thumbnail.jpg'' =
     (Rejected (TypeError ''{ width, height } = stream''),
      log_op (Ffprobe ''/tmp/input.mp4'') staged_world)"
  using getVideoDimensions_first_stream[of test_env staged_world "''/tmp/input.mp4''" undefined
      "''/tmp/thumbnail.jpg''"
      "\<lparr>streams = [\<lparr>codec_type = ''video'', width = Some 1080, height = Some 1920\<rparr>]\<rparr>"
      "\<lparr>codec_type = ''video'', width = Some 1080, height = Some 1920\<rparr>" "[]" undefined]
    getVideoDimensions_first_stream[of test_env test_world "''/tmp/input.mp4''"
      "ServiceError ''ffprobe exited with code 1'' ''stack''" "''/tmp/thumbnail.jpg''"]
    getVideoDimensions_first_stream[of empty_env staged_world "''/tmp/input.mp4''" undefined
      "''/tmp/thumbnail.jpg''" "\<lparr>streams = []\<rparr>"]
  by (simp add: test_env_def empty_env_def staged_world_def test_world_def)

text \<open>
  Claim C5, as stated, fails at the boundary: for a source of 90 by 169 pixels the exact
  difference between the ratio and 16/9 is 0.1, yet the difference of the two doubles
  exceeds the double nearest to 0.1, and the height is recomputed to 676.
\<close>

theorem thumbnail_size_boundary:
  "\<bar>(169 :: rat) / 90 - 16 / 9\<bar> \<le> 1 / 10 \<and> thumbnail_size (Num 90) (Num 169) = (Num 360, Num 676)"
  using thumbnail_size_examples(3) by simp

text \<open>
  Claim C5, amended. For a source of \<open>w\<close> by \<open>h\<close> pixels, both positive and below
  \<open>2\<^sup>3\<^sup>2\<close>, the calculation starts from 360 by 640, where 640 is \<open>round(360 \<times> 16 / 9)\<close>.
  When \<open>h / w\<close> differs from \<open>16 / 9\<close> by less than 0.1 the result is 360 by 640 (so for
  1080 by 1920). When it differs by more than 0.1 exactly one dimension is recomputed and
  the other kept: the height becomes \<open>round(360 \<times> h / w)\<close> when the ratio exceeds 16/9,
  the width becomes \<open>round(640 \<times> w / h)\<close> when it is below (1920 by 1080 gives 1138 by
  640). When the difference is exactly 0.1 the comparison of the doubles decides: the ratio
  151/90 gives 360 by 640, the ratio 169/90 is recomputed to 360 by 676.
\<close>

theorem thumbnail_size_rule:
  fixes w h :: nat
  assumes "0 < w" and "w < 2 ^ 32" and "0 < h" and "h < 2 ^ 32"
  shows "Math_round (js_div (js_mul (Num 360) (Num 16)) (Num 9)) = Num 640 \<and>
         (\<bar>(of_nat h / of_nat w :: rat) - 16 / 9\<bar> < 1 / 10 \<longrightarrow>
            thumbnail_size (Num (of_nat w)) (Num (of_nat h)) = (Num 360, Num 640)) \<and>
         (1 / 10 < (of_nat h / of_nat w :: rat) - 16 / 9 \<longrightarrow>
            thumbnail_size (Num (of_nat w)) (Num (of_nat h)) =
              (Num 360, Num (of_int \<lfloor>360 * (of_nat h / of_nat w :: rat) + 1 / 2\<rfloor>))) \<and>
         (1 / 10 < 16 / 9 - (of_nat h / of_nat w :: rat) \<longrightarrow>
            thumbnail_size (Num (of_nat w)) (Num (of_nat h)) =
              (Num (of_int \<lfloor>640 * (of_nat w / of_nat h :: rat) + 1 / 2\<rfloor>), Num 640)) \<and>
         ((of_nat h / of_nat w :: rat) - 16 / 9 = 1 / 10 \<longrightarrow>
            thumbnail_size (Num (of_nat w)) (Num (of_nat h)) = (Num 360, Num 676)) \<and>
         (16 / 9 - (of_nat h / of_nat w :: rat) = 1 / 10 \<longrightarrow>
            thumbnail_size (Num (of_nat w)) (Num (of_nat h)) = (Num 360, Num 640)) \<and>
         thumbnail_size (Num 1080) (Num 1920) = (Num 360, Num 640) \<and>
         thumbnail_size (Num 1920) (Num 1080) = (Num 1138, Num 640)"
proof (intro conjI impI)
  show "Math_round (js_div (js_mul (Num 360) (Num 16)) (Num 9)) = Num 640"
    by (rule base_height)
  show "thumbnail_size (Num 1080) (Num 1920) = (Num 360, Num 640)"
    by (rule thumbnail_size_examples(1))
  show "thumbnail_size (Num 1920) (Num 1080) = (Num 1138, Num 640)"
    by (rule thumbnail_size_examples(2))
  note cases = thumbnail_size_cases[OF assms(1), of h]
  {
    assume "\<bar>(of_nat h / of_nat w :: rat) - 16 / 9\<bar> < 1 / 10"
    from ratio_near[OF assms(1,2) this]
    show "thumbnail_size (Num (of_nat w)) (Num (of_nat h)) = (Num 360, Num 640)"
      unfolding cases by simp
  }
  {
    assume "1 / 10 < (of_nat h / of_nat w :: rat) - 16 / 9"
    from ratio_above[OF assms(1,2) this]
    have "fl (1 / 10) < \<bar>fl (fl (of_nat h / of_nat w) - fl (16 / 9))\<bar>"
      and "fl (16 / 9) < fl (of_nat h / of_nat w)"
      by simp_all
    then show "thumbnail_size (Num (of_nat w)) (Num (of_nat h)) =
        (Num 360, Num (of_int \<lfloor>360 * (of_nat h / of_nat w :: rat) + 1 / 2\<rfloor>))"
      unfolding cases recomputed_height[OF assms(1,4)] by simp
  }
  {
    assume "1 / 10 < 16 / 9 - (of_nat h / of_nat w :: rat)"
    from ratio_below[OF assms(1,2) this]
    have "fl (1 / 10) < \<bar>fl (fl (of_nat h / of_nat w) - fl (16 / 9))\<bar>"
      and "\<not> fl (16 / 9) < fl (of_nat h / of_nat w)"
      using fl_tenth by simp_all
    then show "thumbnail_size (Num (of_nat w)) (Num (of_nat h)) =
        (Num (of_int \<lfloor>640 * (of_nat w / of_nat h :: rat) + 1 / 2\<rfloor>), Num 640)"
      unfolding cases recomputed_width[OF assms(3,2)] by simp
  }
  {
    assume "(of_nat h / of_nat w :: rat) - 16 / 9 = 1 / 10"
    then have \<rho>: "(of_nat h / of_nat w :: rat) = 169 / 90"
      by linarith
    have "\<lfloor>360 * (169 / 90 :: rat) + 1 / 2\<rfloor> = 676"
      by (simp add: floor_eq_iff)
    then show "thumbnail_size (Num (of_nat w)) (Num (of_nat h)) = (Num 360, Num 676)"
      unfolding cases recomputed_height[OF assms(1,4)] \<rho> using boundary_doubles by simp
  }
  {
    assume "16 / 9 - (of_nat h / of_nat w :: rat) = 1 / 10"
    then have \<rho>: "(of_nat h / of_nat w :: rat) = 151 / 90"
      by linarith
    show "thumbnail_size (Num (of_nat w)) (Num (of_nat h)) = (Num 360, Num 640)"
      unfolding cases \<rho> using boundary_doubles by simp
  }
qed

theorem thumbnail_size_rule_witness:
  "thumbnail_size (Num 720) (Num 1280) = (Num 360, Num 640) \<and>
   thumbnail_size (Num 1000) (Num 2000) = (Num 360, Num 720) \<and>
   thumbnail_size (Num 1280) (Num 720) = (Num 1138, Num 640) \<and>
   thumbnail_size (Num 180) (Num 338) = (Num 360, Num 676)"
proof -
  have f: "\<lfloor>(1441 :: rat) / 2\<rfloor> = 720" "\<lfloor>(20489 :: rat) / 18\<rfloor> = 1138"
    by (simp_all add: floor_eq_iff)
  show ?thesis
    using thumbnail_size_rule[of 720 1280] thumbnail_size_rule[of 1000 2000]
      thumbnail_size_rule[of 1280 720] thumbnail_size_rule[of 180 338] f
    by simp
qed

end
